theory Spec2Isabelle
  imports
    Main
    "HOL-Library.AList"
    "HOL-Library.Char_ord"
    "HOL-Library.List_Lexorder"
    "HOL-Library.Product_Lexorder"
    "HOL-Library.Multiset"
begin

section \<open>Python values shared by all components\<close>

text \<open>
  Exceptions are values. A method that mutates its object and may raise is a function
  from the object to the pair of its outcome and the object as the call leaves it, so
  that what a raising call did to the object before it raised stays visible.
\<close>

text \<open>\<^verbatim>\<open>str(n)\<close> of an integer, and \<^verbatim>\<open>repr(s)\<close> of a string without quotes of its own.\<close>

fun str_nat :: "nat \<Rightarrow> string" where
  "str_nat n =
     (if n < 10 then [char_of (48 + n)]
      else str_nat (n div 10) @ [char_of (48 + n mod 10)])"

definition str_int :: "int \<Rightarrow> string" where
  "str_int i = (if i < 0 then ''-'' @ str_nat (nat (- i)) else str_nat (nat i))"

definition quoted :: "string \<Rightarrow> string" where
  "quoted s = [CHR 0x27] @ s @ [CHR 0x27]"

text \<open>The exceptions the code raises. A \<^verbatim>\<open>KeyError\<close> carries the key: the string it was
  constructed with, or the integer key a dict lookup missed.\<close>

datatype py_error =
    ValueError string
  | KeyError string
  | KeyError_int int
  | AttributeError string
  | TransportError string

text \<open>\<^verbatim>\<open>str(e)\<close>; a \<^verbatim>\<open>KeyError\<close> prints the \<^verbatim>\<open>repr\<close> of its key, so a string key is
  quoted and an integer key is not.\<close>

fun str_error :: "py_error \<Rightarrow> string" where
  "str_error (ValueError m) = m"
| "str_error (KeyError m) = quoted m"
| "str_error (KeyError_int n) = str_int n"
| "str_error (AttributeError m) = m"
| "str_error (TransportError m) = m"

datatype 'a outcome = Raise py_error | Return 'a

section \<open>Match state machine (referee/game\_logic/state\_machine.py)\<close>

datatype GameState =
    WAITING_FOR_PLAYERS
  | COLLECTING_CHOICES
  | DRAWING_NUMBER
  | EVALUATING
  | FINISHED
  | ABORTED

text \<open>The \<^verbatim>\<open>.value\<close> of each enum member.\<close>

fun state_value :: "GameState \<Rightarrow> string" where
  "state_value WAITING_FOR_PLAYERS = ''waiting_for_players''"
| "state_value COLLECTING_CHOICES = ''collecting_choices''"
| "state_value DRAWING_NUMBER = ''drawing_number''"
| "state_value EVALUATING = ''evaluating''"
| "state_value FINISHED = ''finished''"
| "state_value ABORTED = ''aborted''"

text \<open>The class attribute \<^verbatim>\<open>TRANSITIONS\<close>: a dict from state to the set of its successors.\<close>

fun TRANSITIONS :: "GameState \<Rightarrow> GameState set" where
  "TRANSITIONS WAITING_FOR_PLAYERS = {COLLECTING_CHOICES, ABORTED}"
| "TRANSITIONS COLLECTING_CHOICES = {DRAWING_NUMBER, ABORTED}"
| "TRANSITIONS DRAWING_NUMBER = {EVALUATING}"
| "TRANSITIONS EVALUATING = {FINISHED}"
| "TRANSITIONS FINISHED = {}"
| "TRANSITIONS ABORTED = {}"

text \<open>A reading of \<^verbatim>\<open>datetime.now()\<close>; the clock is an input of every call that reads it.\<close>

type_synonym timestamp = nat

record GameStateMachine =
  gsm_match_id :: string
  state :: GameState
  history :: "(GameState \<times> timestamp) list"

definition GameStateMachine_init :: "timestamp \<Rightarrow> string \<Rightarrow> GameStateMachine" where
  "GameStateMachine_init now mid =
     \<lparr>gsm_match_id = mid, state = WAITING_FOR_PLAYERS,
      history = [(WAITING_FOR_PLAYERS, now)]\<rparr>"

definition transition ::
  "timestamp \<Rightarrow> GameState \<Rightarrow> GameStateMachine \<Rightarrow> unit outcome \<times> GameStateMachine" where
  "transition now new_state g =
     (if new_state \<notin> TRANSITIONS (state g)
      then (Raise (ValueError (''Invalid transition: '' @ state_value (state g)
                                 @ '' -> '' @ state_value new_state)), g)
      else (Return (), g\<lparr>state := new_state, history := history g @ [(new_state, now)]\<rparr>))"

definition can_transition :: "GameState \<Rightarrow> GameStateMachine \<Rightarrow> bool" where
  "can_transition new_state g = (new_state \<in> TRANSITIONS (state g))"

text \<open>The transition table as the specification draws it: the chain of four edges and
  the two edges into \<open>ABORTED\<close>.\<close>

definition spec_edges :: "(GameState \<times> GameState) set" where
  "spec_edges =
     {(WAITING_FOR_PLAYERS, COLLECTING_CHOICES),
      (COLLECTING_CHOICES, DRAWING_NUMBER),
      (DRAWING_NUMBER, EVALUATING),
      (EVALUATING, FINISHED),
      (WAITING_FOR_PLAYERS, ABORTED),
      (COLLECTING_CHOICES, ABORTED)}"

definition succeeded :: "'a outcome \<Rightarrow> bool" where
  "succeeded r = (case r of Return _ \<Rightarrow> True | Raise _ \<Rightarrow> False)"

section \<open>Scoring (referee/game\_logic/scorer.py)\<close>

text \<open>
  \<^verbatim>\<open>choices\<close> is a dict: an association list in insertion order, which is the order
  \<^verbatim>\<open>items()\<close> and \<^verbatim>\<open>keys()\<close> iterate in. \<^verbatim>\<open>scores\<close> is built by one assignment per
  key in that order.
\<close>

record game_result =
  status :: string
  winner_player_id :: "string option"
  drawn_number :: int
  number_parity :: string
  choices :: "(string \<times> string) list"
  scores :: "(string \<times> int) list"

fun find_winner :: "string \<Rightarrow> (string \<times> string) list \<Rightarrow> string option" where
  "find_winner parity [] = None"
| "find_winner parity ((player_id, choice) # rest) =
     (if choice = parity then Some player_id else find_winner parity rest)"

definition determine_winner :: "int \<Rightarrow> (string \<times> string) list \<Rightarrow> game_result" where
  "determine_winner drawn chs =
     (let parity = (if drawn mod 2 = 0 then ''even'' else ''odd'');
          winner_id = find_winner parity chs;
          sc = foldl (\<lambda>acc player_id.
                  AList.update player_id (if Some player_id = winner_id then 3 else 0) acc)
                [] (map fst chs)
      in \<lparr>status = ''WIN'', winner_player_id = winner_id, drawn_number = drawn,
          number_parity = parity, choices = chs, scores = sc\<rparr>)"

section \<open>Round-robin scheduler (league\_manager/scheduler/round\_robin.py)\<close>

text \<open>\<^verbatim>\<open>itertools.combinations(xs, 2)\<close>: the pairs of positions \<open>i < j\<close> in lexicographic order.\<close>

fun combinations2 :: "'a list \<Rightarrow> ('a \<times> 'a) list" where
  "combinations2 [] = []"
| "combinations2 (x # xs) = map (Pair x) xs @ combinations2 xs"

definition players_in_round :: "('a \<times> 'a) list \<Rightarrow> 'a set" where
  "players_in_round r = foldl (\<lambda>s m. insert (snd m) (insert (fst m) s)) {} r"

text \<open>
  The inner loop over \<^verbatim>\<open>range(num_rounds)\<close>: the match goes to the first round in which
  both players are free; when the loop ends without a \<^verbatim>\<open>break\<close> the match is in no
  round.
\<close>

fun place_match :: "('a \<times> 'a) \<Rightarrow> ('a \<times> 'a) list list \<Rightarrow> ('a \<times> 'a) list list" where
  "place_match m [] = []"
| "place_match m (r # rs) =
     (if fst m \<notin> players_in_round r \<and> snd m \<notin> players_in_round r
      then (r @ [m]) # rs
      else r # place_match m rs)"

definition create_round_robin_schedule :: "'a list \<Rightarrow> ('a \<times> 'a) list list" where
  "create_round_robin_schedule player_ids =
     (let n = length player_ids in
      if n < 2 then []
      else
        let all_matches = combinations2 player_ids;
            num_rounds = (if n mod 2 = 0 then n - 1 else n);
            rounds = replicate num_rounds []
        in foldl (\<lambda>rs m. place_match m rs) rounds all_matches)"

definition total_matches :: "('a \<times> 'a) list list \<Rightarrow> nat" where
  "total_matches schedule = sum_list (map length schedule)"

section \<open>Round lifecycle (league\_manager/handlers/round\_manager.py)\<close>

datatype RoundStatus = PENDING | IN_PROGRESS | COMPLETED

fun status_value :: "RoundStatus \<Rightarrow> string" where
  "status_value PENDING = ''PENDING''"
| "status_value IN_PROGRESS = ''IN_PROGRESS''"
| "status_value COMPLETED = ''COMPLETED''"

record Match =
  match_id :: string
  player_a_id :: string
  player_b_id :: string
  referee_id :: string
  round_number :: int

text \<open>
  The mutable attributes of a \<^verbatim>\<open>RoundManager\<close>. Each dict is an association list in
  insertion order; \<^verbatim>\<open>d[k] = v\<close> is \<open>AList.update k v\<close>, which overwrites in place or
  appends. The collaborators held by the object (standings calculator, broadcaster,
  message builder, agent store) are not written by the four methods below.
\<close>

record RoundManager =
  league_id :: string
  current_round :: "int option"
  round_status :: "(int \<times> RoundStatus) list"
  round_matches :: "(int \<times> Match list) list"
  completed_matches :: "(int \<times> string set) list"
  total_rounds :: int

definition RoundManager_init :: "string \<Rightarrow> RoundManager" where
  "RoundManager_init lid =
     \<lparr>league_id = lid, current_round = None, round_status = [], round_matches = [],
      completed_matches = [], total_rounds = 0\<rparr>"

definition initialize_tournament :: "Match list list \<Rightarrow> RoundManager \<Rightarrow> RoundManager" where
  "initialize_tournament tournament_schedule rm =
     foldl (\<lambda>r (round_idx, matches).
              let rn = int round_idx + 1 in
              r\<lparr>round_matches := AList.update rn matches (round_matches r),
                round_status := AList.update rn PENDING (round_status r),
                completed_matches := AList.update rn {} (completed_matches r)\<rparr>)
       (rm\<lparr>total_rounds := int (length tournament_schedule), current_round := None\<rparr>)
       (enumerate 0 tournament_schedule)"

text \<open>The \<^verbatim>\<open>ROUND_ANNOUNCEMENT\<close> message, without its envelope.\<close>

record announced_match =
  am_match_id :: string
  am_player_A_id :: string
  am_player_B_id :: string
  am_referee_endpoint :: string

record round_announcement =
  ra_league_id :: string
  ra_round_id :: int
  ra_matches :: "announced_match list"

definition create_round_announcement :: "int \<Rightarrow> Match list \<Rightarrow> RoundManager \<Rightarrow> round_announcement" where
  "create_round_announcement rn matches rm =
     \<lparr>ra_league_id = league_id rm, ra_round_id = rn,
      ra_matches = map (\<lambda>m. \<lparr>am_match_id = match_id m, am_player_A_id = player_a_id m,
                              am_player_B_id = player_b_id m,
                              am_referee_endpoint = ''referee:'' @ referee_id m\<rparr>) matches\<rparr>"

text \<open>
  \<^verbatim>\<open>start_round\<close>: both guards come before any write. The broadcast that follows the
  writes returns a delivery report and raises nothing; it does not touch the manager.
\<close>

definition start_round :: "int \<Rightarrow> RoundManager \<Rightarrow> round_announcement outcome \<times> RoundManager" where
  "start_round rn rm =
     (case map_of (round_matches rm) rn of
        None \<Rightarrow> (Raise (ValueError (''Round '' @ str_int rn @ '' does not exist'')), rm)
      | Some matches \<Rightarrow>
          (case map_of (round_status rm) rn of
             None \<Rightarrow> (Raise (KeyError_int rn), rm)
           | Some st \<Rightarrow>
               if st \<noteq> PENDING
               then (Raise (ValueError (''Round '' @ str_int rn @ '' already '' @ status_value st)), rm)
               else
                 let rm' = rm\<lparr>current_round := Some rn,
                               round_status := AList.update rn IN_PROGRESS (round_status rm)\<rparr>
                 in (Return (create_round_announcement rn matches rm'), rm')))"

definition mark_match_complete :: "string \<Rightarrow> int \<Rightarrow> RoundManager \<Rightarrow> bool outcome \<times> RoundManager" where
  "mark_match_complete mid rn rm =
     (case map_of (completed_matches rm) rn of
        None \<Rightarrow> (Return False, rm)
      | Some done \<Rightarrow>
          let rm' = rm\<lparr>completed_matches :=
                          AList.update rn (insert mid done) (completed_matches rm)\<rparr>
          in (case map_of (round_matches rm') rn of
                None \<Rightarrow> (Raise (KeyError_int rn), rm')
              | Some matches \<Rightarrow> (Return (card (insert mid done) = length matches), rm')))"

text \<open>The \<^verbatim>\<open>ROUND_COMPLETED\<close> message, without its envelope.\<close>

record round_completed =
  rc_round_id :: int
  rc_matches_completed :: nat
  rc_next_round_id :: "int option"

text \<open>
  \<^verbatim>\<open>complete_round\<close> writes the status first and reads \<^verbatim>\<open>round_matches\<close> after: for a
  round that does not exist the \<^verbatim>\<open>KeyError\<close> leaves the new status entry behind.
\<close>

definition complete_round :: "int \<Rightarrow> RoundManager \<Rightarrow> round_completed outcome \<times> RoundManager" where
  "complete_round rn rm =
     (let rm' = rm\<lparr>round_status := AList.update rn COMPLETED (round_status rm)\<rparr> in
      case map_of (round_matches rm') rn of
        None \<Rightarrow> (Raise (KeyError_int rn), rm')
      | Some matches \<Rightarrow>
          (Return \<lparr>rc_round_id = rn, rc_matches_completed = length matches,
                   rc_next_round_id = (if rn < total_rounds rm' then Some (rn + 1) else None)\<rparr>,
           rm'))"

definition is_tournament_complete :: "RoundManager \<Rightarrow> bool" where
  "is_tournament_complete rm = list_all (\<lambda>s. s = COMPLETED) (map snd (round_status rm))"

text \<open>The states a manager can be in: as constructed, and after any call of the four
  methods, whether the call returned or raised.\<close>

inductive reachable_rm :: "RoundManager \<Rightarrow> bool" where
  rm_new: "reachable_rm (RoundManager_init lid)"
| rm_initialize: "reachable_rm rm \<Longrightarrow> reachable_rm (initialize_tournament sched rm)"
| rm_start: "reachable_rm rm \<Longrightarrow> reachable_rm (snd (start_round rn rm))"
| rm_mark: "reachable_rm rm \<Longrightarrow> reachable_rm (snd (mark_match_complete mid rn rm))"
| rm_complete: "reachable_rm rm \<Longrightarrow> reachable_rm (snd (complete_round rn rm))"

text \<open>A schedule of two rounds with one match each, and the manager after the rounds
  were played in the order 2, 1: each round is started, its match marked complete, and
  the round completed. Each of the six calls returns.\<close>

definition demo_schedule :: "Match list list" where
  "demo_schedule =
     [[\<lparr>match_id = ''L1_R1_M001'', player_a_id = ''P01'', player_b_id = ''P02'',
        referee_id = ''REF01'', round_number = 1\<rparr>],
      [\<lparr>match_id = ''L1_R2_M001'', player_a_id = ''P01'', player_b_id = ''P03'',
        referee_id = ''REF01'', round_number = 2\<rparr>]]"

definition play_round :: "int \<Rightarrow> string \<Rightarrow> RoundManager \<Rightarrow> RoundManager" where
  "play_round rn mid rm =
     snd (complete_round rn (snd (mark_match_complete mid rn (snd (start_round rn rm)))))"

definition rounds_out_of_order :: RoundManager where
  "rounds_out_of_order =
     play_round 1 ''L1_R1_M001'' (play_round 2 ''L1_R2_M001''
       (initialize_tournament demo_schedule (RoundManager_init ''L1'')))"

text \<open>Completion as the specification words it.\<close>

definition spec_is_tournament_complete :: "RoundManager \<Rightarrow> bool" where
  "spec_is_tournament_complete rm \<longleftrightarrow>
     current_round rm = Some (total_rounds rm)
     \<and> (\<forall>n st. map_of (round_status rm) n = Some st \<longrightarrow> st = COMPLETED)"

section \<open>Standings (league\_manager/standings)\<close>

subsection \<open>Match tracker (match\_tracker.py)\<close>

record MatchResult =
  mr_match_id :: string
  mr_player_a_id :: string
  mr_player_b_id :: string
  mr_winner_id :: "string option"
  mr_result_type :: string
  mr_timestamp :: timestamp

text \<open>One value of the \<^verbatim>\<open>player_stats\<close> dict: the four counters.\<close>

record stats_entry =
  st_wins :: int
  st_losses :: int
  st_ties :: int
  st_matches_played :: int

record MatchTracker =
  matches :: "MatchResult list"
  head_to_head :: "((string \<times> string) \<times> string) list"
  player_stats :: "(string \<times> stats_entry) list"

definition MatchTracker_init :: MatchTracker where
  "MatchTracker_init = \<lparr>matches = [], head_to_head = [], player_stats = []\<rparr>"

definition init_stats :: "string \<Rightarrow> (string \<times> stats_entry) list \<Rightarrow> (string \<times> stats_entry) list" where
  "init_stats pid st =
     (if map_of st pid = None
      then AList.update pid \<lparr>st_wins = 0, st_losses = 0, st_ties = 0, st_matches_played = 0\<rparr> st
      else st)"

text \<open>
  \<^verbatim>\<open>record_match\<close>: the guard on the winner comes before the first write. The writes
  follow in the order of the source, each on the tracker the previous one left.
\<close>

definition record_match ::
  "timestamp \<Rightarrow> string \<Rightarrow> string \<Rightarrow> string \<Rightarrow> string option \<Rightarrow> string
     \<Rightarrow> MatchTracker \<Rightarrow> unit outcome \<times> MatchTracker" where
  "record_match now mid a b winner_id result_type t =
     (if winner_id \<noteq> None \<and> winner_id \<noteq> Some a \<and> winner_id \<noteq> Some b
      then (Raise (ValueError (''Winner '' @ the winner_id @ '' not in match players'')), t)
      else
        let t1 = t\<lparr>matches := matches t @
                     [\<lparr>mr_match_id = mid, mr_player_a_id = a, mr_player_b_id = b,
                       mr_winner_id = winner_id, mr_result_type = result_type,
                       mr_timestamp = now\<rparr>]\<rparr>;
            h = head_to_head t1;
            h' = (if winner_id = Some a
                  then AList.update (b, a) ''L'' (AList.update (a, b) ''W'' h)
                  else if winner_id = Some b
                  then AList.update (b, a) ''W'' (AList.update (a, b) ''L'' h)
                  else AList.update (b, a) ''T'' (AList.update (a, b) ''T'' h));
            t2 = t1\<lparr>head_to_head := h'\<rparr>;
            s0 = init_stats b (init_stats a (player_stats t2));
            s1 = (case winner_id of
                    None \<Rightarrow>
                      (AList.map_entry b (\<lambda>e. e\<lparr>st_matches_played := st_matches_played e + 1\<rparr>)
                       \<circ> AList.map_entry b (\<lambda>e. e\<lparr>st_ties := st_ties e + 1\<rparr>)
                       \<circ> AList.map_entry a (\<lambda>e. e\<lparr>st_matches_played := st_matches_played e + 1\<rparr>)
                       \<circ> AList.map_entry a (\<lambda>e. e\<lparr>st_ties := st_ties e + 1\<rparr>)) s0
                  | Some w \<Rightarrow>
                      let loser_id = (if w = a then b else a) in
                      (AList.map_entry loser_id (\<lambda>e. e\<lparr>st_matches_played := st_matches_played e + 1\<rparr>)
                       \<circ> AList.map_entry loser_id (\<lambda>e. e\<lparr>st_losses := st_losses e + 1\<rparr>)
                       \<circ> AList.map_entry w (\<lambda>e. e\<lparr>st_matches_played := st_matches_played e + 1\<rparr>)
                       \<circ> AList.map_entry w (\<lambda>e. e\<lparr>st_wins := st_wins e + 1\<rparr>)) s0)
        in (Return (), t2\<lparr>player_stats := s1\<rparr>))"

definition get_head_to_head :: "string \<Rightarrow> string \<Rightarrow> MatchTracker \<Rightarrow> string option" where
  "get_head_to_head pid opponent_id t = map_of (head_to_head t) (pid, opponent_id)"

subsection \<open>Standings calculator (standings\_calculator.py)\<close>

record PlayerStanding =
  player_id :: string
  display_name :: string
  wins :: int
  losses :: int
  ties :: int
  points :: int
  matches_played :: int
  rank :: int

text \<open>
  \<^verbatim>\<open>players\<close> maps an id to a standing object. The objects are reached through the
  dict only, so an object is its entry: a write to \<^verbatim>\<open>self.players[k].f\<close> is
  \<open>AList.map_entry k\<close>. When \<^verbatim>\<open>player_a_id\<close> and \<^verbatim>\<open>player_b_id\<close> are equal the two
  local names denote one object, and the writes through both land on one entry.
\<close>

record StandingsCalculator =
  players :: "(string \<times> PlayerStanding) list"
  match_tracker :: MatchTracker

definition StandingsCalculator_init :: StandingsCalculator where
  "StandingsCalculator_init = \<lparr>players = [], match_tracker = MatchTracker_init\<rparr>"

definition new_standing :: "string \<Rightarrow> string \<Rightarrow> PlayerStanding" where
  "new_standing pid name =
     \<lparr>player_id = pid, display_name = name, wins = 0, losses = 0, ties = 0, points = 0,
      matches_played = 0, rank = 0\<rparr>"

definition add_player ::
  "string \<Rightarrow> string \<Rightarrow> StandingsCalculator \<Rightarrow> PlayerStanding \<times> StandingsCalculator" where
  "add_player pid name c =
     (new_standing pid name, c\<lparr>players := AList.update pid (new_standing pid name) (players c)\<rparr>)"

definition record_match_result ::
  "timestamp \<Rightarrow> string \<Rightarrow> string \<Rightarrow> string \<Rightarrow> string option
     \<Rightarrow> StandingsCalculator \<Rightarrow> unit outcome \<times> StandingsCalculator" where
  "record_match_result now mid a b winner_id c =
     (if map_of (players c) a = None
      then (Raise (KeyError (''Player '' @ a @ '' not in standings'')), c)
      else if map_of (players c) b = None
      then (Raise (KeyError (''Player '' @ b @ '' not in standings'')), c)
      else
        (case record_match now mid a b winner_id ''WIN'' (match_tracker c) of
           (Raise e, t') \<Rightarrow> (Raise e, c\<lparr>match_tracker := t'\<rparr>)
         | (Return _, t') \<Rightarrow>
             let p0 = players c;
                 p1 = AList.map_entry a (\<lambda>p. p\<lparr>matches_played := matches_played p + 1\<rparr>) p0;
                 p2 = AList.map_entry b (\<lambda>p. p\<lparr>matches_played := matches_played p + 1\<rparr>) p1;
                 p3 = (if winner_id = None then
                         (AList.map_entry b (\<lambda>p. p\<lparr>points := points p + 1\<rparr>)
                          \<circ> AList.map_entry b (\<lambda>p. p\<lparr>ties := ties p + 1\<rparr>)
                          \<circ> AList.map_entry a (\<lambda>p. p\<lparr>points := points p + 1\<rparr>)
                          \<circ> AList.map_entry a (\<lambda>p. p\<lparr>ties := ties p + 1\<rparr>)) p2
                       else if winner_id = Some a then
                         (AList.map_entry b (\<lambda>p. p\<lparr>losses := losses p + 1\<rparr>)
                          \<circ> AList.map_entry a (\<lambda>p. p\<lparr>points := points p + 3\<rparr>)
                          \<circ> AList.map_entry a (\<lambda>p. p\<lparr>wins := wins p + 1\<rparr>)) p2
                       else
                         (AList.map_entry a (\<lambda>p. p\<lparr>losses := losses p + 1\<rparr>)
                          \<circ> AList.map_entry b (\<lambda>p. p\<lparr>points := points p + 3\<rparr>)
                          \<circ> AList.map_entry b (\<lambda>p. p\<lparr>wins := wins p + 1\<rparr>)) p2)
             in (Return (), c\<lparr>match_tracker := t', players := p3\<rparr>)))"

text \<open>\<^verbatim>\<open>_get_tiebreaker_value\<close>. \<^verbatim>\<open>tied_players[0]\<close> is read only when the list has
  one element.\<close>

definition get_tiebreaker_value ::
  "MatchTracker \<Rightarrow> PlayerStanding \<Rightarrow> PlayerStanding list \<Rightarrow> int" where
  "get_tiebreaker_value t player all_players =
     (let tied_players =
            filter (\<lambda>p. points p = points player \<and> player_id p \<noteq> player_id player) all_players
      in if length tied_players \<noteq> 1 then 0
         else
           let opponent = hd tied_players;
               h2h = get_head_to_head (player_id player) (player_id opponent) t
           in if h2h = Some ''W'' then 0 else (if h2h = Some ''L'' then 1 else 0))"

text \<open>
  \<^verbatim>\<open>get_standings\<close>. The list of dict values is kept with the dict keys, which
  identify the objects. \<^verbatim>\<open>tiebreaker_values\<close> is a dict keyed by \<^verbatim>\<open>p.player_id\<close>,
  filled in list order and read back by \<^verbatim>\<open>p.player_id\<close> (every key read was written).
  \<^verbatim>\<open>list.sort\<close> is stable, as \<open>sort_key\<close> is; tuples compare lexicographically and
  strings by code point. The ranks are written to the objects, so the dict sees them too.
\<close>

definition tiebreaker_values ::
  "MatchTracker \<Rightarrow> PlayerStanding list \<Rightarrow> (string \<times> int) list" where
  "tiebreaker_values t standings =
     foldl (\<lambda>d p. AList.update (player_id p) (get_tiebreaker_value t p standings) d) [] standings"

definition sort_key_of :: "(string \<times> int) list \<Rightarrow> PlayerStanding \<Rightarrow> int \<times> int \<times> string" where
  "sort_key_of tbv p = (- points p, the (map_of tbv (player_id p)), player_id p)"

definition get_standings :: "StandingsCalculator \<Rightarrow> PlayerStanding list \<times> StandingsCalculator" where
  "get_standings c =
     (let standings = players c;
          tbv = tiebreaker_values (match_tracker c) (map snd standings);
          sorted_standings = sort_key (\<lambda>(k, p). sort_key_of tbv p) standings;
          ranked = map (\<lambda>(i, (k, p)). (k, p\<lparr>rank := int i + 1\<rparr>)) (enumerate 0 sorted_standings)
      in (map snd ranked,
          c\<lparr>players := foldl (\<lambda>ps (k, p). AList.update k p ps) (players c) ranked\<rparr>))"

text \<open>The tie-break value as the specification words it: 0 unless exactly one other
  player shares the point total, and then 1 if the recorded head-to-head against that
  player is a loss, 0 if it is a win, a tie or absent.\<close>

definition spec_tiebreak_value ::
  "MatchTracker \<Rightarrow> PlayerStanding list \<Rightarrow> PlayerStanding \<Rightarrow> int" where
  "spec_tiebreak_value t all_players p =
     (case filter (\<lambda>q. player_id q \<noteq> player_id p \<and> points q = points p) all_players of
        [q] \<Rightarrow> (if map_of (head_to_head t) (player_id p, player_id q) = Some ''L'' then 1 else 0)
      | _ \<Rightarrow> 0)"

definition spec_key :: "StandingsCalculator \<Rightarrow> PlayerStanding \<Rightarrow> int \<times> int \<times> string" where
  "spec_key c p =
     (- points p, spec_tiebreak_value (match_tracker c) (map snd (players c)) p, player_id p)"

text \<open>The number of players on a given point total.\<close>

definition on_total :: "StandingsCalculator \<Rightarrow> int \<Rightarrow> nat" where
  "on_total c n = length (filter (\<lambda>q. points q = n) (map snd (players c)))"

text \<open>The calculators that \<^verbatim>\<open>add_player\<close> and returning calls of
  \<^verbatim>\<open>record_match_result\<close> build.\<close>

inductive reachable_sc :: "StandingsCalculator \<Rightarrow> bool" where
  sc_new: "reachable_sc StandingsCalculator_init"
| sc_add: "reachable_sc c \<Longrightarrow> reachable_sc (snd (add_player pid name c))"
| sc_record: "reachable_sc c \<Longrightarrow> record_match_result now mid a b w c = (Return (), c')
                \<Longrightarrow> reachable_sc c'"

text \<open>What every dict built through \<^verbatim>\<open>add_player\<close> satisfies: one entry per id, and
  the id stored in the object is its key.\<close>

definition wf_players :: "(string \<times> PlayerStanding) list \<Rightarrow> bool" where
  "wf_players ps \<longleftrightarrow> distinct (map fst ps) \<and> list_all (\<lambda>(k, p). player_id p = k) ps"

text \<open>The property every standing keeps: the object carries its key, and the points
  are three per win plus one per tie.\<close>

definition standing_ok :: "string \<Rightarrow> PlayerStanding \<Rightarrow> bool" where
  "standing_ok k p \<longleftrightarrow> player_id p = k \<and> points p = 3 * wins p + 1 * ties p"

text \<open>\<^verbatim>\<open>self.players[k].matches_played\<close>, when the player exists.\<close>

definition played :: "StandingsCalculator \<Rightarrow> string \<Rightarrow> int option" where
  "played c k = map_option matches_played (map_of (players c) k)"

text \<open>The local \<^verbatim>\<open>standings\<close> of \<^verbatim>\<open>get_standings\<close> after the sort.\<close>

definition sorted_standings :: "StandingsCalculator \<Rightarrow> (string \<times> PlayerStanding) list" where
  "sorted_standings c =
     sort_key (\<lambda>(k, p). sort_key_of (tiebreaker_values (match_tracker c) (map snd (players c))) p)
       (players c)"

text \<open>The example of the specification: P1 beats P2, then P1 beats P3.\<close>

definition demo_calculator :: StandingsCalculator where
  "demo_calculator =
     snd (record_match_result 2 ''M2'' ''P1'' ''P3'' (Some ''P1'')
       (snd (record_match_result 1 ''M1'' ''P1'' ''P2'' (Some ''P1'')
         (snd (add_player ''P3'' ''Carol''
           (snd (add_player ''P2'' ''Bob''
             (snd (add_player ''P1'' ''Alice'' StandingsCalculator_init)))))))))"

section \<open>Broadcast (league\_manager/broadcast)\<close>

text \<open>
  The metadata dict of an agent, by the three keys the broadcaster reads; a missing key
  is \<open>None\<close>. \<^verbatim>\<open>x or y\<close> and \<^verbatim>\<open>not x\<close> treat \<^verbatim>\<open>None\<close> and the empty string alike.
\<close>

record agent_meta =
  meta_player_id :: "string option"
  meta_referee_id :: "string option"
  meta_endpoint :: "string option"

definition truthy_str :: "string option \<Rightarrow> bool" where
  "truthy_str v = (case v of None \<Rightarrow> False | Some s \<Rightarrow> s \<noteq> [])"

definition get_agent_id :: "agent_meta \<Rightarrow> string" where
  "get_agent_id agent =
     (if truthy_str (meta_player_id agent) then the (meta_player_id agent)
      else if truthy_str (meta_referee_id agent) then the (meta_referee_id agent)
      else ''unknown'')"

text \<open>
  What one attempt to post the message does: it is delivered, or one of the three
  \<^verbatim>\<open>except\<close> clauses of \<^verbatim>\<open>send_to_agent\<close> catches an exception, kept by its \<^verbatim>\<open>str\<close>. The
  answers of the network are an input: a function from the attempt number.
\<close>

datatype attempt =
    Delivered
  | TimeoutException string
  | HTTPStatusError string
  | OtherException string

text \<open>One entry of \<^verbatim>\<open>asyncio.gather(*tasks, return_exceptions=True)\<close>: the exception a
  task raised, or the value it returned.\<close>

datatype gathered = GException string | GTrue | GFalse

text \<open>
  The retry loop over \<^verbatim>\<open>range(max_retries + 1)\<close>. A failed attempt re-raises when it is
  the one numbered \<^verbatim>\<open>max_retries\<close> and otherwise sleeps and goes on; a loop that ends
  without returning or raising falls through to \<^verbatim>\<open>return False\<close>.
\<close>

fun try_attempts :: "int \<Rightarrow> (nat \<Rightarrow> attempt) \<Rightarrow> nat list \<Rightarrow> gathered" where
  "try_attempts max_retries net [] = GFalse"
| "try_attempts max_retries net (k # ks) =
     (case net k of
        Delivered \<Rightarrow> GTrue
      | TimeoutException e \<Rightarrow>
          if int k = max_retries then GException e else try_attempts max_retries net ks
      | HTTPStatusError e \<Rightarrow>
          if int k = max_retries then GException e else try_attempts max_retries net ks
      | OtherException e \<Rightarrow>
          if int k = max_retries then GException e else try_attempts max_retries net ks)"

definition send_to_agent :: "int \<Rightarrow> agent_meta \<Rightarrow> (nat \<Rightarrow> attempt) \<Rightarrow> gathered" where
  "send_to_agent max_retries agent net =
     (if \<not> truthy_str (meta_endpoint agent)
      then GException (''Agent '' @ get_agent_id agent @ '' has no endpoint'')
      else try_attempts max_retries net [0..<nat (max_retries + 1)])"

record DeliveryReport =
  total_count :: int
  successful :: int
  failed :: int
  failed_agents :: "string list"
  errors :: "(string \<times> string) list"

definition DeliveryReport_init :: DeliveryReport where
  "DeliveryReport_init =
     \<lparr>total_count = 0, successful = 0, failed = 0, failed_agents = [], errors = []\<rparr>"

definition process_result :: "DeliveryReport \<Rightarrow> agent_meta \<times> gathered \<Rightarrow> DeliveryReport" where
  "process_result report ar =
     (let agent_id = get_agent_id (fst ar) in
      case snd ar of
        GException e \<Rightarrow>
          report\<lparr>failed := failed report + 1,
                 failed_agents := failed_agents report @ [agent_id],
                 errors := AList.update agent_id e (errors report)\<rparr>
      | GTrue \<Rightarrow> report\<lparr>successful := successful report + 1\<rparr>
      | GFalse \<Rightarrow>
          report\<lparr>failed := failed report + 1,
                 failed_agents := failed_agents report @ [agent_id],
                 errors := AList.update agent_id ''Unknown error'' (errors report)\<rparr>)"

definition process_results ::
  "agent_meta list \<Rightarrow> gathered list \<Rightarrow> DeliveryReport \<Rightarrow> DeliveryReport" where
  "process_results agents results report = foldl process_result report (zip agents results)"

text \<open>
  \<^verbatim>\<open>_broadcast_to_agents\<close>. \<open>net i k\<close> is what attempt \<open>k\<close> to the agent at index \<open>i\<close>
  meets. The tasks share nothing, so the order they run in does not enter the results.
\<close>

definition broadcast_to_agents ::
  "int \<Rightarrow> agent_meta list \<Rightarrow> (nat \<Rightarrow> nat \<Rightarrow> attempt) \<Rightarrow> DeliveryReport" where
  "broadcast_to_agents max_retries agents net =
     (let report = DeliveryReport_init\<lparr>total_count := int (length agents)\<rparr> in
      if agents = [] then report
      else
        let results = map (\<lambda>(i, agent). send_to_agent max_retries agent (net i))
                        (enumerate 0 agents)
        in process_results agents results report)"

text \<open>Three players; the endpoint of the second one fails at every attempt.\<close>

definition demo_agents :: "agent_meta list" where
  "demo_agents =
     [\<lparr>meta_player_id = Some ''P01'', meta_referee_id = None,
       meta_endpoint = Some ''http://localhost:8101/mcp''\<rparr>,
      \<lparr>meta_player_id = Some ''X'', meta_referee_id = None,
       meta_endpoint = Some ''http://localhost:8102/mcp''\<rparr>,
      \<lparr>meta_player_id = Some ''P03'', meta_referee_id = None,
       meta_endpoint = Some ''http://localhost:8103/mcp''\<rparr>]"

definition demo_net :: "nat \<Rightarrow> nat \<Rightarrow> attempt" where
  "demo_net i k = (if i = 1 then TimeoutException ''timed out'' else Delivered)"

section \<open>Match orchestration (referee/orchestration, referee/game\_orchestrator.py)\<close>

subsection \<open>Message dicts and their aliasing\<close>

text \<open>
  A request is a dict whose values are strings or other dicts. Dicts are objects: a
  value that is a dict is a reference into a store of objects, so that two dicts can
  hold the same inner dict. \<^verbatim>\<open>{**d}\<close> makes a new dict with the items of \<^verbatim>\<open>d\<close>, the
  references among them copied as references.
\<close>

datatype pyval = Str string | Ref nat

type_synonym pydict = "(string \<times> pyval) list"

type_synonym store = "(nat \<times> pydict) list"

definition new_dict :: "pydict \<Rightarrow> store \<Rightarrow> nat \<times> store" where
  "new_dict d h = (length h, h @ [(length h, d)])"

definition shallow_copy :: "nat \<Rightarrow> store \<Rightarrow> nat \<times> store" where
  "shallow_copy a h = new_dict (case map_of h a of Some d \<Rightarrow> d | None \<Rightarrow> []) h"

definition setitem :: "nat \<Rightarrow> string \<Rightarrow> pyval \<Rightarrow> store \<Rightarrow> store" where
  "setitem a k v h = AList.map_entry a (AList.update k v) h"

definition getitem :: "nat \<Rightarrow> string \<Rightarrow> store \<Rightarrow> pyval option" where
  "getitem a k h = (case map_of h a of None \<Rightarrow> None | Some d \<Rightarrow> map_of d k)"

text \<open>JSON values, as sent and as received.\<close>

datatype json = JNull | JBool bool | JNum int | JStr string | JObj "(string \<times> json) list"

text \<open>Serialising a value when the call is made follows the references as the store
  then has them; the fuel bounds the nesting depth.\<close>

fun serialise :: "nat \<Rightarrow> store \<Rightarrow> pyval \<Rightarrow> json option" where
  "serialise n h (Str s) = Some (JStr s)"
| "serialise 0 h (Ref a) = None"
| "serialise (Suc n) h (Ref a) =
     (case map_of h a of
        None \<Rightarrow> None
      | Some d \<Rightarrow>
          map_option JObj
            (those (map (\<lambda>kv. map_option (Pair (fst kv)) (serialise n h (snd kv))) d)))"

record referee_config =
  cfg_referee_id :: string
  cfg_auth_token :: "string option"
  cfg_league_id :: "string option"

definition or_empty :: "string option \<Rightarrow> string" where
  "or_empty v = (case v of None \<Rightarrow> [] | Some s \<Rightarrow> s)"

record match_params =
  mp_match_id :: string
  mp_round_id :: string
  player_A_id :: string
  player_B_id :: string
  player_A_endpoint :: string
  player_B_endpoint :: string

text \<open>A call handed to \<^verbatim>\<open>client.call_tool\<close>: endpoint, tool name and the parameters as
  they are serialised.\<close>

record tool_call =
  call_endpoint :: string
  call_tool :: string
  call_params :: "json option"

text \<open>
  The requests of \<^verbatim>\<open>collect_choices\<close>. \<^verbatim>\<open>choice_params_A\<close> holds a nested
  \<^verbatim>\<open>context\<close> dict; \<^verbatim>\<open>choice_params_B = {**choice_params_A}\<close> copies the reference to
  it, and \<^verbatim>\<open>choice_params_B["context"]["opponent_id"] = ...\<close> writes through that
  reference. Both calls are made after the writes.
\<close>

definition choice_requests ::
  "referee_config \<Rightarrow> string \<Rightarrow> string \<Rightarrow> match_params \<Rightarrow> tool_call list" where
  "choice_requests cfg utc_now deadline mp =
     (let (ctx, h1) =
            new_dict [(''opponent_id'', Str (player_B_id mp)),
                      (''round_id'', Str (mp_round_id mp))] [];
          (choice_params_A, h2) =
            new_dict [(''protocol'', Str ''league.v2''),
                      (''message_type'', Str ''CHOOSE_PARITY_CALL''),
                      (''sender'', Str (''referee:'' @ cfg_referee_id cfg)),
                      (''timestamp'', Str utc_now),
                      (''conversation_id'', Str (''conv'' @ mp_match_id mp @ ''001'')),
                      (''auth_token'', Str (or_empty (cfg_auth_token cfg))),
                      (''match_id'', Str (mp_match_id mp)),
                      (''game_type'', Str ''even_odd''),
                      (''deadline'', Str deadline),
                      (''player_id'', Str (player_A_id mp)),
                      (''context'', Ref ctx)] h1;
          (choice_params_B, h3) = shallow_copy choice_params_A h2;
          h4 = setitem choice_params_B ''player_id'' (Str (player_B_id mp)) h3;
          h5 = (case getitem choice_params_B ''context'' h4 of
                  Some (Ref c) \<Rightarrow> setitem c ''opponent_id'' (Str (player_A_id mp)) h4
                | _ \<Rightarrow> h4)
      in [\<lparr>call_endpoint = player_A_endpoint mp, call_tool = ''choose_parity'',
            call_params = serialise 2 h5 (Ref choice_params_A)\<rparr>,
          \<lparr>call_endpoint = player_B_endpoint mp, call_tool = ''choose_parity'',
            call_params = serialise 2 h5 (Ref choice_params_B)\<rparr>])"

text \<open>The requests of \<^verbatim>\<open>send_invitations\<close>, built the same way; here \<^verbatim>\<open>opponent_id\<close> is a
  key of the copied dict itself.\<close>

definition invitation_requests ::
  "referee_config \<Rightarrow> string \<Rightarrow> match_params \<Rightarrow> tool_call list" where
  "invitation_requests cfg utc_now mp =
     (let (invitation_A, h1) =
            new_dict [(''protocol'', Str ''league.v2''),
                      (''message_type'', Str ''GAME_INVITATION''),
                      (''sender'', Str (''referee:'' @ cfg_referee_id cfg)),
                      (''timestamp'', Str utc_now),
                      (''conversation_id'', Str (''conv'' @ mp_match_id mp @ ''001'')),
                      (''auth_token'', Str (or_empty (cfg_auth_token cfg))),
                      (''league_id'', Str (or_empty (cfg_league_id cfg))),
                      (''round_id'', Str (mp_round_id mp)),
                      (''match_id'', Str (mp_match_id mp)),
                      (''game_type'', Str ''even_odd''),
                      (''role_in_match'', Str ''PLAYER_A''),
                      (''opponent_id'', Str (player_B_id mp))] [];
          (invitation_B, h2) = shallow_copy invitation_A h1;
          h3 = setitem invitation_B ''role_in_match'' (Str ''PLAYER_B'') h2;
          h4 = setitem invitation_B ''opponent_id'' (Str (player_A_id mp)) h3
      in [\<lparr>call_endpoint = player_A_endpoint mp, call_tool = ''handle_game_invitation'',
            call_params = serialise 2 h4 (Ref invitation_A)\<rparr>,
          \<lparr>call_endpoint = player_B_endpoint mp, call_tool = ''handle_game_invitation'',
            call_params = serialise 2 h4 (Ref invitation_B)\<rparr>])"

text \<open>Reading a key, and a key of a nested object, of a serialised request.\<close>

definition field :: "string \<Rightarrow> json option \<Rightarrow> json option" where
  "field k j = (case j of Some (JObj d) \<Rightarrow> map_of d k | _ \<Rightarrow> None)"

definition demo_config :: referee_config where
  "demo_config = \<lparr>cfg_referee_id = ''REF01'', cfg_auth_token = None, cfg_league_id = Some ''L1''\<rparr>"

definition demo_match :: match_params where
  "demo_match =
     \<lparr>mp_match_id = ''R1M1'', mp_round_id = ''1'', player_A_id = ''P01'', player_B_id = ''P02'',
      player_A_endpoint = ''http://localhost:8101/mcp'',
      player_B_endpoint = ''http://localhost:8102/mcp''\<rparr>"

subsection \<open>The phases of a match\<close>

text \<open>
  One entry of \<^verbatim>\<open>asyncio.gather(..., return_exceptions=True)\<close> over the two calls to
  the players: the exception the call raised, which includes the \<^verbatim>\<open>TimeoutError\<close> of
  \<^verbatim>\<open>asyncio.wait_for\<close>, or the JSON the player answered. Since \<^verbatim>\<open>gather\<close> returns the
  exceptions, the \<^verbatim>\<open>except asyncio.TimeoutError\<close> clauses after it catch nothing.
\<close>

datatype reply = CallFailed string | Reply json

text \<open>The name of the Python type a JSON value is decoded to.\<close>

fun type_name :: "json \<Rightarrow> string" where
  "type_name JNull = ''NoneType''"
| "type_name (JBool b) = ''bool''"
| "type_name (JNum n) = ''int''"
| "type_name (JStr s) = ''str''"
| "type_name (JObj d) = ''dict''"

text \<open>\<^verbatim>\<open>d.get(k, default)\<close>; a value that is not an object has no such attribute, and
  the \<^verbatim>\<open>AttributeError\<close> names the type of the value.\<close>

definition py_get :: "string \<Rightarrow> json \<Rightarrow> json \<Rightarrow> json outcome" where
  "py_get k dflt j =
     (case j of
        JObj d \<Rightarrow> Return (case map_of d k of Some v \<Rightarrow> v | None \<Rightarrow> dflt)
      | _ \<Rightarrow> Raise (AttributeError
                      (quoted (type_name j) @ '' object has no attribute '' @ quoted ''get'')))"

fun truthy :: "json \<Rightarrow> bool" where
  "truthy JNull = False"
| "truthy (JBool b) = b"
| "truthy (JNum n) = (n \<noteq> 0)"
| "truthy (JStr s) = (s \<noteq> [])"
| "truthy (JObj d) = (d \<noteq> [])"

text \<open>The two statements \<^verbatim>\<open>game.transition(s); return v\<close>.\<close>

definition transition_then_return ::
  "timestamp \<Rightarrow> GameState \<Rightarrow> 'a \<Rightarrow> GameStateMachine \<Rightarrow> 'a outcome \<times> GameStateMachine" where
  "transition_then_return now s v g =
     (case transition now s g of
        (Raise e, g') \<Rightarrow> (Raise e, g')
      | (Return _, g') \<Rightarrow> (Return v, g'))"

text \<open>What the outside answers during one match.\<close>

record orchestration_env =
  clock :: timestamp
  invitation_A :: reply
  invitation_B :: reply
  choice_A :: reply
  choice_B :: reply
  drawn :: int
  league_call_error :: "string option"

text \<open>The loop of \<^verbatim>\<open>send_invitations\<close> over the gathered results.\<close>

fun check_invitations ::
  "timestamp \<Rightarrow> reply list \<Rightarrow> GameStateMachine \<Rightarrow> bool outcome \<times> GameStateMachine" where
  "check_invitations now [] g = transition_then_return now COLLECTING_CHOICES True g"
| "check_invitations now (r # rs) g =
     (case r of
        CallFailed e \<Rightarrow> transition_then_return now ABORTED False g
      | Reply j \<Rightarrow>
          (case py_get ''result'' (JObj []) j of
             Raise e \<Rightarrow> (Raise e, g)
           | Return inner \<Rightarrow>
               (case py_get ''accept'' (JBool False) inner of
                  Raise e \<Rightarrow> (Raise e, g)
                | Return accept \<Rightarrow>
                    if \<not> truthy accept then transition_then_return now ABORTED False g
                    else check_invitations now rs g)))"

definition send_invitations ::
  "orchestration_env \<Rightarrow> GameStateMachine \<Rightarrow> bool outcome \<times> GameStateMachine" where
  "send_invitations env g = check_invitations (clock env) [invitation_A env, invitation_B env] g"

text \<open>The loop of \<^verbatim>\<open>collect_choices\<close>; \<^verbatim>\<open>choices\<close> is a dict keyed by player id.\<close>

fun check_choices ::
  "timestamp \<Rightarrow> (string \<times> reply) list \<Rightarrow> (string \<times> string) list \<Rightarrow> GameStateMachine
     \<Rightarrow> (string \<times> string) list option outcome \<times> GameStateMachine" where
  "check_choices now [] chs g = transition_then_return now DRAWING_NUMBER (Some chs) g"
| "check_choices now ((pid, r) # rest) chs g =
     (case r of
        CallFailed e \<Rightarrow> transition_then_return now ABORTED None g
      | Reply j \<Rightarrow>
          (case py_get ''result'' (JObj []) j of
             Raise e \<Rightarrow> (Raise e, g)
           | Return inner \<Rightarrow>
               (case py_get ''parity_choice'' JNull inner of
                  Raise e \<Rightarrow> (Raise e, g)
                | Return choice \<Rightarrow>
                    if choice = JStr ''even''
                    then check_choices now rest (AList.update pid ''even'' chs) g
                    else if choice = JStr ''odd''
                    then check_choices now rest (AList.update pid ''odd'' chs) g
                    else transition_then_return now ABORTED None g)))"

definition collect_choices ::
  "orchestration_env \<Rightarrow> match_params \<Rightarrow> GameStateMachine
     \<Rightarrow> (string \<times> string) list option outcome \<times> GameStateMachine" where
  "collect_choices env mp g =
     check_choices (clock env)
       [(player_A_id mp, choice_A env), (player_B_id mp, choice_B env)] [] g"

definition draw_and_evaluate ::
  "orchestration_env \<Rightarrow> (string \<times> string) list \<Rightarrow> GameStateMachine
     \<Rightarrow> game_result outcome \<times> GameStateMachine" where
  "draw_and_evaluate env chs g =
     (let drawn_number = drawn env in
      case transition (clock env) EVALUATING g of
        (Raise e, g1) \<Rightarrow> (Raise e, g1)
      | (Return _, g1) \<Rightarrow>
          let result = determine_winner drawn_number chs in
          transition_then_return (clock env) FINISHED result g1)"

text \<open>A \<^verbatim>\<open>MATCH_RESULT_REPORT\<close> handed to the call to the league manager: the result of a
  played match, or status \<^verbatim>\<open>ABORTED\<close> with a reason.\<close>

datatype report_body =
    Played "string option" "(string \<times> int) list" int "(string \<times> string) list"
  | AbortedWith string

record match_result_report =
  rep_match_id :: string
  rep_round_id :: string
  rep_conversation_id :: string
  rep_result :: report_body

definition result_report :: "match_params \<Rightarrow> game_result \<Rightarrow> match_result_report" where
  "result_report mp result =
     \<lparr>rep_match_id = mp_match_id mp, rep_round_id = mp_round_id mp,
      rep_conversation_id = ''conv'' @ mp_match_id mp @ ''report'',
      rep_result = Played (winner_player_id result) (scores result)
                     (drawn_number result) (choices result)\<rparr>"

definition aborted_report :: "match_params \<Rightarrow> string \<Rightarrow> match_result_report" where
  "aborted_report mp reason =
     \<lparr>rep_match_id = mp_match_id mp, rep_round_id = mp_round_id mp,
      rep_conversation_id = ''conv'' @ mp_match_id mp @ ''abort'',
      rep_result = AbortedWith reason\<rparr>"

text \<open>
  The body of the \<^verbatim>\<open>try\<close> of \<^verbatim>\<open>orchestrate_game\<close>: its outcome, the state machine, and
  the reports handed to the call to the league manager, in order. \<^verbatim>\<open>notify_players\<close>
  gathers its two calls with their exceptions and raises nothing. \<^verbatim>\<open>report_result\<close>
  makes the call and lets its exception through.
\<close>

definition run_phases ::
  "orchestration_env \<Rightarrow> match_params \<Rightarrow> GameStateMachine
     \<Rightarrow> unit outcome \<times> GameStateMachine \<times> match_result_report list" where
  "run_phases env mp game =
     (case send_invitations env game of
        (Raise e, g1) \<Rightarrow> (Raise e, g1, [])
      | (Return success, g1) \<Rightarrow>
          if \<not> success then (Return (), g1, [])
          else
            (case collect_choices env mp g1 of
               (Raise e, g2) \<Rightarrow> (Raise e, g2, [])
             | (Return chs, g2) \<Rightarrow>
                 if chs = None \<or> chs = Some [] then (Return (), g2, [])
                 else
                   (case draw_and_evaluate env (the chs) g2 of
                      (Raise e, g3) \<Rightarrow> (Raise e, g3, [])
                    | (Return result, g3) \<Rightarrow>
                        (case league_call_error env of
                           Some m \<Rightarrow> (Raise (TransportError m), g3, [result_report mp result])
                         | None \<Rightarrow> (Return (), g3, [result_report mp result])))))"

text \<open>
  \<^verbatim>\<open>orchestrate_game\<close>. The \<^verbatim>\<open>except Exception\<close> handler moves the machine to
  \<open>ABORTED\<close>, which can itself raise, and then calls \<^verbatim>\<open>report_aborted_game\<close>, which makes
  the call and swallows its exception. The \<^verbatim>\<open>finally\<close> clause closes the client.
\<close>

definition orchestrate_game ::
  "orchestration_env \<Rightarrow> match_params
     \<Rightarrow> unit outcome \<times> GameStateMachine \<times> match_result_report list" where
  "orchestrate_game env mp =
     (let game = GameStateMachine_init (clock env) (mp_match_id mp) in
      case run_phases env mp game of
        (Return _, g, sent) \<Rightarrow> (Return (), g, sent)
      | (Raise e, g, sent) \<Rightarrow>
          (case transition (clock env) ABORTED g of
             (Raise e', g') \<Rightarrow> (Raise e', g', sent)
           | (Return _, g') \<Rightarrow> (Return (), g', sent @ [aborted_report mp (str_error e)])))"

text \<open>A match in which both players accept and choose, and four in which one thing goes
  wrong: a rejected invitation, an invitation that is never answered, a choice outside
  the two symbols, and a choice call that fails.\<close>

definition accept_reply :: "bool \<Rightarrow> reply" where
  "accept_reply b = Reply (JObj [(''result'', JObj [(''accept'', JBool b)])])"

definition choice_reply :: "string \<Rightarrow> reply" where
  "choice_reply s = Reply (JObj [(''result'', JObj [(''parity_choice'', JStr s)])])"

definition env_played :: orchestration_env where
  "env_played =
     \<lparr>clock = 0, invitation_A = accept_reply True, invitation_B = accept_reply True,
      choice_A = choice_reply ''even'', choice_B = choice_reply ''odd'', drawn = 8,
      league_call_error = None\<rparr>"

definition env_rejected :: orchestration_env where
  "env_rejected = env_played\<lparr>invitation_B := accept_reply False\<rparr>"

definition env_no_answer :: orchestration_env where
  "env_no_answer = env_played\<lparr>invitation_A := CallFailed ''TimeoutError''\<rparr>"

definition env_bad_choice :: orchestration_env where
  "env_bad_choice = env_played\<lparr>choice_B := choice_reply ''maybe''\<rparr>"

definition env_choice_failed :: orchestration_env where
  "env_choice_failed = env_played\<lparr>choice_A := CallFailed ''ConnectError''\<rparr>"

definition env_malformed :: orchestration_env where
  "env_malformed = env_played\<lparr>invitation_A := Reply (JStr ''oops'')\<rparr>"

definition reports_of ::
  "unit outcome \<times> GameStateMachine \<times> match_result_report list \<Rightarrow> match_result_report list" where
  "reports_of r = snd (snd r)"

definition final_state ::
  "unit outcome \<times> GameStateMachine \<times> match_result_report list \<Rightarrow> GameState" where
  "final_state r = state (fst (snd r))"

section \<open>Properties\<close>

subsection \<open>State machine\<close>

lemma TRANSITIONS_spec_edges: "t \<in> TRANSITIONS s \<longleftrightarrow> (s, t) \<in> spec_edges"
  by (cases s; cases t; simp add: spec_edges_def)

text \<open>
  Claim C5. From any current state \<open>state g\<close> and for any target \<open>t\<close>, \<open>transition\<close>
  succeeds exactly when the pair is an edge of the fixed table. A successful call sets
  the state to \<open>t\<close> and appends the one entry \<open>(t, now)\<close> to the history. Any other
  call raises the invalid-transition \<open>ValueError\<close> and leaves the machine, state and
  history, as it was. \<open>FINISHED\<close> and \<open>ABORTED\<close> have no successor, and \<open>ABORTED\<close> is
  entered from \<open>WAITING_FOR_PLAYERS\<close> and \<open>COLLECTING_CHOICES\<close> only.
\<close>

theorem transition_exactly_table_edges:
  "(succeeded (fst (transition now t g)) \<longleftrightarrow> (state g, t) \<in> spec_edges)
   \<and> ((state g, t) \<in> spec_edges \<longrightarrow>
        fst (transition now t g) = Return ()
        \<and> state (snd (transition now t g)) = t
        \<and> history (snd (transition now t g)) = history g @ [(t, now)]
        \<and> length (history (snd (transition now t g))) = Suc (length (history g)))
   \<and> ((state g, t) \<notin> spec_edges \<longrightarrow>
        fst (transition now t g) =
          Raise (ValueError (''Invalid transition: '' @ state_value (state g)
                              @ '' -> '' @ state_value t))
        \<and> snd (transition now t g) = g)
   \<and> (state g = FINISHED \<or> state g = ABORTED \<longrightarrow> \<not> succeeded (fst (transition now t g)))
   \<and> (succeeded (fst (transition now ABORTED g)) \<longleftrightarrow>
        state g = WAITING_FOR_PLAYERS \<or> state g = COLLECTING_CHOICES)"
proof -
  have edge: "(state g, t) \<in> spec_edges \<longleftrightarrow> t \<in> TRANSITIONS (state g)"
    by (simp add: TRANSITIONS_spec_edges)
  have terminal: "state g = FINISHED \<or> state g = ABORTED \<Longrightarrow> t \<notin> TRANSITIONS (state g)"
    by auto
  have aborted: "ABORTED \<in> TRANSITIONS (state g) \<longleftrightarrow>
                   state g = WAITING_FOR_PLAYERS \<or> state g = COLLECTING_CHOICES"
    by (cases "state g") simp_all
  show ?thesis
    using terminal aborted unfolding edge
    by (simp add: transition_def succeeded_def)
qed

theorem transition_exactly_table_edges_witness:
  "(WAITING_FOR_PLAYERS, COLLECTING_CHOICES) \<in> spec_edges
   \<and> transition 7 COLLECTING_CHOICES (GameStateMachine_init 3 ''R1M1'') =
       (Return (),
        \<lparr>gsm_match_id = ''R1M1'', state = COLLECTING_CHOICES,
         history = [(WAITING_FOR_PLAYERS, 3), (COLLECTING_CHOICES, 7)]\<rparr>)
   \<and> (WAITING_FOR_PLAYERS, FINISHED) \<notin> spec_edges
   \<and> transition 7 FINISHED (GameStateMachine_init 3 ''R1M1'') =
       (Raise (ValueError ''Invalid transition: waiting_for_players -> finished''),
        GameStateMachine_init 3 ''R1M1'')"
proof -
  have e1: "(WAITING_FOR_PLAYERS, COLLECTING_CHOICES) \<in> spec_edges"
    by (simp add: spec_edges_def)
  have e2: "(WAITING_FOR_PLAYERS, FINISHED) \<notin> spec_edges"
    by (simp add: spec_edges_def)
  have s: "state (GameStateMachine_init 3 ''R1M1'') = WAITING_FOR_PLAYERS"
    by (simp add: GameStateMachine_init_def)
  from transition_exactly_table_edges [of 7 COLLECTING_CHOICES "GameStateMachine_init 3 ''R1M1''"]
       e1 s
  have ok: "fst (transition 7 COLLECTING_CHOICES (GameStateMachine_init 3 ''R1M1'')) = Return ()"
    by simp
  from transition_exactly_table_edges [of 7 FINISHED "GameStateMachine_init 3 ''R1M1''"]
       e2 s
  have bad: "transition 7 FINISHED (GameStateMachine_init 3 ''R1M1'') =
       (Raise (ValueError ''Invalid transition: waiting_for_players -> finished''),
        GameStateMachine_init 3 ''R1M1'')"
    by (simp add: prod_eq_iff)
  from ok have "transition 7 COLLECTING_CHOICES (GameStateMachine_init 3 ''R1M1'') =
       (Return (),
        \<lparr>gsm_match_id = ''R1M1'', state = COLLECTING_CHOICES,
         history = [(WAITING_FOR_PLAYERS, 3), (COLLECTING_CHOICES, 7)]\<rparr>)"
    by (simp add: transition_def GameStateMachine_init_def split: if_splits)
  with e1 e2 bad show ?thesis by simp
qed

subsection \<open>Scoring\<close>

text \<open>
  Claim C3 as stated fails. The draw is 7 (odd) and both players chose ``even'': no
  choice equals the parity, the loop ends without a winner, and the result has no
  winner and score 0 for both players, so the scores sum to 0 and the first key of the
  map is not the winner.
\<close>

theorem determine_winner_same_losing_choice:
  "determine_winner 7 [(''P01'', ''even''), (''P02'', ''even'')] =
     \<lparr>status = ''WIN'', winner_player_id = None, drawn_number = 7,
      number_parity = ''odd'',
      choices = [(''P01'', ''even''), (''P02'', ''even'')],
      scores = [(''P01'', 0), (''P02'', 0)]\<rparr>
   \<and> sum_list (map snd (scores (determine_winner 7 [(''P01'', ''even''), (''P02'', ''even'')]))) = 0"
  by (simp add: determine_winner_def)

text \<open>
  Claim C3 as amended. For every drawn number and every choice map over two distinct
  player ids \<open>a\<close> (first key) and \<open>b\<close>, the parity is ``even'' for an even draw and
  ``odd'' otherwise, and the winner is the first key whose choice equals the parity:
  \<open>a\<close> if \<open>a\<close> chose it (also when both did), else \<open>b\<close> if \<open>b\<close> chose it; the winner
  scores 3 and the other player 0, so the scores sum to 3. When the two players chose
  different symbols among ``even'' and ``odd'' there is such a winner. When neither
  choice equals the parity, as when both chose the other symbol, there is no winner and
  both scores are 0.
\<close>

theorem determine_winner_first_matching_choice:
  assumes "a \<noteq> b"
  shows "number_parity (determine_winner d [(a, ca), (b, cb)])
           = (if d mod 2 = 0 then ''even'' else ''odd'')
       \<and> choices (determine_winner d [(a, ca), (b, cb)]) = [(a, ca), (b, cb)]
       \<and> drawn_number (determine_winner d [(a, ca), (b, cb)]) = d
       \<and> (ca = number_parity (determine_winner d [(a, ca), (b, cb)]) \<longrightarrow>
             winner_player_id (determine_winner d [(a, ca), (b, cb)]) = Some a
             \<and> scores (determine_winner d [(a, ca), (b, cb)]) = [(a, 3), (b, 0)])
       \<and> (ca \<noteq> number_parity (determine_winner d [(a, ca), (b, cb)])
            \<and> cb = number_parity (determine_winner d [(a, ca), (b, cb)]) \<longrightarrow>
             winner_player_id (determine_winner d [(a, ca), (b, cb)]) = Some b
             \<and> scores (determine_winner d [(a, ca), (b, cb)]) = [(a, 0), (b, 3)])
       \<and> (ca \<noteq> number_parity (determine_winner d [(a, ca), (b, cb)])
            \<and> cb \<noteq> number_parity (determine_winner d [(a, ca), (b, cb)]) \<longrightarrow>
             winner_player_id (determine_winner d [(a, ca), (b, cb)]) = None
             \<and> scores (determine_winner d [(a, ca), (b, cb)]) = [(a, 0), (b, 0)])
       \<and> (ca \<in> {''even'', ''odd''} \<and> cb \<in> {''even'', ''odd''} \<and> ca \<noteq> cb \<longrightarrow>
             winner_player_id (determine_winner d [(a, ca), (b, cb)]) \<noteq> None)
       \<and> (winner_player_id (determine_winner d [(a, ca), (b, cb)]) \<noteq> None \<longrightarrow>
             sum_list (map snd (scores (determine_winner d [(a, ca), (b, cb)]))) = 3)"
  using assms by (auto simp: determine_winner_def Let_def)

theorem determine_winner_first_matching_choice_witness:
  "''P01'' \<noteq> ''P02''
   \<and> winner_player_id (determine_winner 8 [(''P01'', ''even''), (''P02'', ''odd'')]) = Some ''P01''
   \<and> scores (determine_winner 8 [(''P01'', ''even''), (''P02'', ''odd'')])
       = [(''P01'', 3), (''P02'', 0)]
   \<and> winner_player_id (determine_winner 7 [(''P01'', ''even''), (''P02'', ''odd'')]) = Some ''P02''
   \<and> scores (determine_winner 7 [(''P01'', ''even''), (''P02'', ''odd'')])
       = [(''P01'', 0), (''P02'', 3)]
   \<and> winner_player_id (determine_winner 8 [(''P01'', ''even''), (''P02'', ''even'')]) = Some ''P01''
   \<and> winner_player_id (determine_winner 7 [(''P01'', ''even''), (''P02'', ''even'')]) = None
   \<and> scores (determine_winner 7 [(''P01'', ''even''), (''P02'', ''even'')])
       = [(''P01'', 0), (''P02'', 0)]"
proof -
  have ne: "''P01'' \<noteq> ''P02''" by simp
  have p8: "(if (8::int) mod 2 = 0 then ''even'' else ''odd'') = ''even''"
    and p7: "(if (7::int) mod 2 = 0 then ''even'' else ''odd'') = ''odd''" by simp_all
  from determine_winner_first_matching_choice [OF ne, of 8 "''even''" "''odd''"] p8
  have w1: "winner_player_id (determine_winner 8 [(''P01'', ''even''), (''P02'', ''odd'')]) = Some ''P01''"
    and s1: "scores (determine_winner 8 [(''P01'', ''even''), (''P02'', ''odd'')])
               = [(''P01'', 3), (''P02'', 0)]"
    by simp_all
  from determine_winner_first_matching_choice [OF ne, of 7 "''even''" "''odd''"] p7
  have w2: "winner_player_id (determine_winner 7 [(''P01'', ''even''), (''P02'', ''odd'')]) = Some ''P02''"
    and s2: "scores (determine_winner 7 [(''P01'', ''even''), (''P02'', ''odd'')])
               = [(''P01'', 0), (''P02'', 3)]"
    by simp_all
  from determine_winner_first_matching_choice [OF ne, of 8 "''even''" "''even''"] p8
  have w3: "winner_player_id (determine_winner 8 [(''P01'', ''even''), (''P02'', ''even'')]) = Some ''P01''"
    by simp
  from determine_winner_first_matching_choice [OF ne, of 7 "''even''" "''even''"] p7
  have w4: "winner_player_id (determine_winner 7 [(''P01'', ''even''), (''P02'', ''even'')]) = None"
    and s4: "scores (determine_winner 7 [(''P01'', ''even''), (''P02'', ''even'')])
               = [(''P01'', 0), (''P02'', 0)]"
    by simp_all
  from ne w1 s1 w2 s2 w3 w4 s4 show ?thesis by simp
qed

subsection \<open>Round-robin scheduler\<close>

text \<open>
  Claim C1, evaluated where it fails. With five players the first-fit placement fills
  the first three rounds with the pairs among the first four players and leaves one
  match in each of the last two rounds; the pairs (P03, P05) and (P04, P05) find no
  round with both players free and are in no round. The schedule has 8 matches, not
  C(5,2) = 10.
\<close>

theorem create_round_robin_schedule_five_players:
  "create_round_robin_schedule [''P01'', ''P02'', ''P03'', ''P04'', ''P05''] =
     [[(''P01'', ''P02''), (''P03'', ''P04'')],
      [(''P01'', ''P03''), (''P02'', ''P04'')],
      [(''P01'', ''P04''), (''P02'', ''P03'')],
      [(''P01'', ''P05'')],
      [(''P02'', ''P05'')]]
   \<and> total_matches
        (create_round_robin_schedule [''P01'', ''P02'', ''P03'', ''P04'', ''P05'']) = 8
   \<and> length [''P01'', ''P02'', ''P03'', ''P04'', ''P05''] choose 2 = 10
   \<and> (''P03'', ''P05'') \<notin>
        set (concat (create_round_robin_schedule [''P01'', ''P02'', ''P03'', ''P04'', ''P05'']))
   \<and> (''P05'', ''P03'') \<notin>
        set (concat (create_round_robin_schedule [''P01'', ''P02'', ''P03'', ''P04'', ''P05'']))"
proof -
  have eq: "create_round_robin_schedule [''P01'', ''P02'', ''P03'', ''P04'', ''P05''] =
     [[(''P01'', ''P02''), (''P03'', ''P04'')],
      [(''P01'', ''P03''), (''P02'', ''P04'')],
      [(''P01'', ''P04''), (''P02'', ''P03'')],
      [(''P01'', ''P05'')],
      [(''P02'', ''P05'')]]"
    by code_simp
  have ch: "length [''P01'', ''P02'', ''P03'', ''P04'', ''P05''] choose 2 = 10"
    by (simp add: numeral_eq_Suc)
  show ?thesis unfolding eq using ch by (simp add: total_matches_def)
qed

subsection \<open>Round lifecycle\<close>

lemma initialize_keeps_status_keys_distinct:
  "distinct (map fst (round_status r)) \<Longrightarrow>
   distinct (map fst (round_status
     (foldl (\<lambda>r (round_idx, matches).
              let rn = int round_idx + 1 in
              r\<lparr>round_matches := AList.update rn matches (round_matches r),
                round_status := AList.update rn PENDING (round_status r),
                completed_matches := AList.update rn {} (completed_matches r)\<rparr>) r xs)))"
  by (induction xs arbitrary: r) (auto simp: distinct_update Let_def)

text \<open>The status dict never holds a round number twice.\<close>

lemma reachable_rm_distinct: "reachable_rm rm \<Longrightarrow> distinct (map fst (round_status rm))"
proof (induction rule: reachable_rm.induct)
  case (rm_new lid)
  then show ?case by (simp add: RoundManager_init_def)
next
  case (rm_initialize rm sched)
  then show ?case unfolding initialize_tournament_def
    by (intro initialize_keeps_status_keys_distinct) simp
next
  case (rm_start rm rn)
  then show ?case
    by (simp add: start_round_def distinct_update Let_def split: option.splits)
next
  case (rm_mark rm mid rn)
  then show ?case
    by (simp add: mark_match_complete_def Let_def split: option.splits)
next
  case (rm_complete rm rn)
  then show ?case
    by (simp add: complete_round_def distinct_update Let_def split: option.splits)
qed

lemma all_values_iff_lookup:
  "distinct (map fst al) \<Longrightarrow>
   list_all P (map snd al) \<longleftrightarrow> (\<forall>k v. map_of al k = Some v \<longrightarrow> P v)"
  by (auto simp: list_all_iff dest: map_of_SomeD)

lemma rounds_out_of_order_reachable: "reachable_rm rounds_out_of_order"
  unfolding rounds_out_of_order_def play_round_def by (intro reachable_rm.intros)

lemma rounds_out_of_order_value:
  "rounds_out_of_order =
    \<lparr>league_id = ''L1'', current_round = Some 1,
     round_status = [(1, COMPLETED), (2, COMPLETED)],
     round_matches = [(1, demo_schedule ! 0), (2, demo_schedule ! 1)],
     completed_matches = [(1, {''L1_R1_M001''}), (2, {''L1_R2_M001''})],
     total_rounds = 2\<rparr>"
  by (simp add: rounds_out_of_order_def play_round_def initialize_tournament_def
      RoundManager_init_def demo_schedule_def start_round_def mark_match_complete_def
      complete_round_def Let_def enumerate_eq_zip upt_rec)

text \<open>
  Claim C4 as stated fails. Two rounds are initialised; round 2 is started, played and
  completed, then round 1. No call raises. Every round is \<open>COMPLETED\<close> and
  \<open>is_tournament_complete\<close> returns true, while \<open>current_round\<close> is 1 and
  \<open>total_rounds\<close> is 2.
\<close>

theorem is_tournament_complete_ignores_current_round:
  "reachable_rm rounds_out_of_order
   \<and> is_tournament_complete rounds_out_of_order
   \<and> current_round rounds_out_of_order = Some 1
   \<and> total_rounds rounds_out_of_order = 2
   \<and> \<not> spec_is_tournament_complete rounds_out_of_order"
  using rounds_out_of_order_reachable
  by (simp add: rounds_out_of_order_value is_tournament_complete_def
      spec_is_tournament_complete_def)

text \<open>
  Claim C4 as amended. In every reachable state \<open>is_tournament_complete\<close> returns true
  if and only if every round in the status dict is \<open>COMPLETED\<close>; \<open>current_round\<close> is
  not consulted. In particular it returns true whenever the condition of the
  specification holds.
\<close>

theorem is_tournament_complete_iff_all_completed:
  assumes "reachable_rm rm"
  shows "(is_tournament_complete rm \<longleftrightarrow>
            (\<forall>n st. map_of (round_status rm) n = Some st \<longrightarrow> st = COMPLETED))
         \<and> (spec_is_tournament_complete rm \<longrightarrow> is_tournament_complete rm)"
proof -
  have "is_tournament_complete rm \<longleftrightarrow>
          (\<forall>n st. map_of (round_status rm) n = Some st \<longrightarrow> st = COMPLETED)"
    unfolding is_tournament_complete_def
    using reachable_rm_distinct [OF assms] by (rule all_values_iff_lookup)
  then show ?thesis by (simp add: spec_is_tournament_complete_def)
qed

theorem is_tournament_complete_iff_all_completed_witness:
  "reachable_rm rounds_out_of_order
   \<and> is_tournament_complete rounds_out_of_order
   \<and> (is_tournament_complete rounds_out_of_order \<longleftrightarrow>
        (\<forall>n st. map_of (round_status rounds_out_of_order) n = Some st \<longrightarrow> st = COMPLETED))
   \<and> map_of (round_status rounds_out_of_order) 2 = Some COMPLETED"
proof -
  have c: "is_tournament_complete rounds_out_of_order"
    by (simp add: rounds_out_of_order_value is_tournament_complete_def)
  have l: "map_of (round_status rounds_out_of_order) 2 = Some COMPLETED"
    by (simp add: rounds_out_of_order_value)
  from is_tournament_complete_iff_all_completed [OF rounds_out_of_order_reachable] c l
  show ?thesis using rounds_out_of_order_reachable by blast
qed

subsection \<open>Standings\<close>


lemma record_match_raise_unchanged:
  "record_match now mid a b w rt t = (Raise e, t') \<Longrightarrow> t' = t"
  by (auto simp: record_match_def Let_def split: if_splits)

lemma record_match_bad_winner:
  "w \<noteq> None \<Longrightarrow> w \<noteq> Some a \<Longrightarrow> w \<noteq> Some b \<Longrightarrow>
     record_match now mid a b w rt t =
       (Raise (ValueError (''Winner '' @ the w @ '' not in match players'')), t)"
  by (simp add: record_match_def)

lemma record_match_good_winner:
  "w = None \<or> w = Some a \<or> w = Some b \<Longrightarrow> fst (record_match now mid a b w rt t) = Return ()"
  by (auto simp: record_match_def Let_def)

lemma entries_iff_lookup:
  "distinct (map fst al) \<Longrightarrow>
   list_all (\<lambda>(k, v). Q k v) al \<longleftrightarrow> (\<forall>k v. map_of al k = Some v \<longrightarrow> Q k v)"
  by (auto simp: list_all_iff dest: map_of_SomeD)

lemma record_match_result_players:
  assumes "record_match_result now mid a b w c = (Return (), c')"
  shows "map_of (players c) a \<noteq> None" and "map_of (players c) b \<noteq> None"
    and "players c' =
      (let p2 = AList.map_entry b (\<lambda>p. p\<lparr>matches_played := matches_played p + 1\<rparr>)
                  (AList.map_entry a (\<lambda>p. p\<lparr>matches_played := matches_played p + 1\<rparr>) (players c))
       in if w = None then
            (AList.map_entry b (\<lambda>p. p\<lparr>points := points p + 1\<rparr>)
             \<circ> AList.map_entry b (\<lambda>p. p\<lparr>ties := ties p + 1\<rparr>)
             \<circ> AList.map_entry a (\<lambda>p. p\<lparr>points := points p + 1\<rparr>)
             \<circ> AList.map_entry a (\<lambda>p. p\<lparr>ties := ties p + 1\<rparr>)) p2
          else if w = Some a then
            (AList.map_entry b (\<lambda>p. p\<lparr>losses := losses p + 1\<rparr>)
             \<circ> AList.map_entry a (\<lambda>p. p\<lparr>points := points p + 3\<rparr>)
             \<circ> AList.map_entry a (\<lambda>p. p\<lparr>wins := wins p + 1\<rparr>)) p2
          else
            (AList.map_entry a (\<lambda>p. p\<lparr>losses := losses p + 1\<rparr>)
             \<circ> AList.map_entry b (\<lambda>p. p\<lparr>points := points p + 3\<rparr>)
             \<circ> AList.map_entry b (\<lambda>p. p\<lparr>wins := wins p + 1\<rparr>)) p2)"
  using assms
  by (auto simp: record_match_result_def Let_def split: if_splits prod.splits outcome.splits)

lemma record_match_result_keeps_ok:
  assumes r: "record_match_result now mid a b w c = (Return (), c')"
    and d: "distinct (map fst (players c))"
    and ok: "\<forall>k p. map_of (players c) k = Some p \<longrightarrow> standing_ok k p"
  shows "distinct (map fst (players c'))"
    and "\<forall>k p. map_of (players c') k = Some p \<longrightarrow> standing_ok k p"
proof -
  show "distinct (map fst (players c'))"
    using d by (simp add: record_match_result_players(3) [OF r] Let_def distinct_map_entry)
  show "\<forall>k p. map_of (players c') k = Some p \<longrightarrow> standing_ok k p"
  proof (intro allI impI)
    fix k p
    assume l: "map_of (players c') k = Some p"
    then show "standing_ok k p"
      using ok
      by (auto simp: record_match_result_players(3) [OF r] Let_def map_of_map_entry
            standing_ok_def split: if_splits option.splits)
  qed
qed

lemma reachable_sc_inv:
  "reachable_sc c \<Longrightarrow>
     distinct (map fst (players c)) \<and> (\<forall>k p. map_of (players c) k = Some p \<longrightarrow> standing_ok k p)"
proof (induction rule: reachable_sc.induct)
  case sc_new
  then show ?case by (simp add: StandingsCalculator_init_def)
next
  case (sc_add c pid name)
  then show ?case
    by (auto simp: add_player_def distinct_update update_conv' standing_ok_def new_standing_def)
next
  case (sc_record c now mid a b w c')
  then show ?case using record_match_result_keeps_ok by blast
qed

lemma record_match_result_played:
  assumes r: "record_match_result now mid a b w c = (Return (), c')" and ne: "a \<noteq> b"
  shows "\<exists>n m. played c a = Some n \<and> played c' a = Some (n + 1)
             \<and> played c b = Some m \<and> played c' b = Some (m + 1)"
  using record_match_result_players(1,2) [OF r] ne
  by (auto simp: played_def record_match_result_players(3) [OF r] Let_def map_of_map_entry
        split: option.splits)


lemma tiebreak_refines_spec:
  "get_tiebreaker_value t p ps = spec_tiebreak_value t ps p"
proof -
  have f: "filter (\<lambda>q. points q = points p \<and> player_id q \<noteq> player_id p) ps
         = filter (\<lambda>q. player_id q \<noteq> player_id p \<and> points q = points p) ps"
    by (rule filter_cong) auto
  show ?thesis
    unfolding get_tiebreaker_value_def spec_tiebreak_value_def get_head_to_head_def f Let_def
    by (cases "filter (\<lambda>q. player_id q \<noteq> player_id p \<and> points q = points p) ps" rule: list.exhaust;
        simp split: list.splits)
qed

lemma foldl_update_lookup:
  "distinct (map f xs) \<Longrightarrow> x \<in> set xs \<Longrightarrow>
     map_of (foldl (\<lambda>d p. AList.update (f p) (g p) d) d0 xs) (f x) = Some (g x)"
proof (induction xs arbitrary: x rule: rev_induct)
  case Nil
  then show ?case by simp
next
  case (snoc y ys)
  show ?case
  proof (cases "x = y")
    case True
    then show ?thesis by (simp add: update_conv')
  next
    case False
    with snoc.prems have "x \<in> set ys" and "f x \<noteq> f y" by (auto simp: image_iff)
    with snoc.prems snoc.IH [of x] show ?thesis by (simp add: update_conv')
  qed
qed

lemma tiebreaker_values_lookup:
  "distinct (map player_id ps) \<Longrightarrow> p \<in> set ps \<Longrightarrow>
     map_of (tiebreaker_values t ps) (player_id p) = Some (get_tiebreaker_value t p ps)"
  unfolding tiebreaker_values_def by (rule foldl_update_lookup)

lemma wf_players_ids:
  assumes "wf_players ps"
  shows "map player_id (map snd ps) = map fst ps" and "distinct (map player_id (map snd ps))"
proof -
  show e: "map player_id (map snd ps) = map fst ps"
    using assms by (induction ps) (auto simp: wf_players_def)
  show "distinct (map player_id (map snd ps))"
    unfolding e using assms by (simp add: wf_players_def)
qed

lemma spec_key_rank: "spec_key c (p\<lparr>rank := r\<rparr>) = spec_key c p"
  by (simp add: spec_key_def spec_tiebreak_value_def split: list.splits)

lemma sort_key_of_spec_key:
  assumes "wf_players (players c)" and "(k, p) \<in> set (players c)"
  shows "sort_key_of (tiebreaker_values (match_tracker c) (map snd (players c))) p = spec_key c p"
proof -
  have "p \<in> set (map snd (players c))" using assms(2) by force
  then show ?thesis
    using wf_players_ids(2) [OF assms(1)]
    by (simp add: sort_key_of_def spec_key_def tiebreaker_values_lookup tiebreak_refines_spec)
qed

lemma get_standings_fst:
  "fst (get_standings c) =
     map (\<lambda>(i, (k, p)). p\<lparr>rank := int i + 1\<rparr>) (enumerate 0 (sorted_standings c))"
  by (simp add: get_standings_def sorted_standings_def Let_def split_def)

lemma get_standings_length: "length (fst (get_standings c)) = length (players c)"
  by (simp add: get_standings_fst sorted_standings_def)

lemma get_standings_nth:
  assumes "i < length (players c)"
  shows "fst (get_standings c) ! i = (snd (sorted_standings c ! i))\<lparr>rank := int i + 1\<rparr>"
proof -
  have "i < length (sorted_standings c)" using assms by (simp add: sorted_standings_def)
  then show ?thesis
    by (simp add: get_standings_fst nth_enumerate_eq split_def)
qed

lemma get_standings_map:
  assumes "\<And>p r. h (p\<lparr>rank := r\<rparr>) = h p"
  shows "map h (fst (get_standings c)) = map (\<lambda>(k, p). h p) (sorted_standings c)"
proof (rule nth_equalityI)
  show "length (map h (fst (get_standings c))) = length (map (\<lambda>(k, p). h p) (sorted_standings c))"
    by (simp add: get_standings_length sorted_standings_def)
next
  fix i assume "i < length (map h (fst (get_standings c)))"
  then have i: "i < length (players c)" by (simp add: get_standings_length)
  then have "i < length (sorted_standings c)" by (simp add: sorted_standings_def)
  then show "map h (fst (get_standings c)) ! i = map (\<lambda>(k, p). h p) (sorted_standings c) ! i"
    using i by (simp add: get_standings_nth get_standings_length assms split_def)
qed

lemma get_standings_keys:
  assumes "wf_players (players c)"
  shows "map (spec_key c) (fst (get_standings c)) =
         map (\<lambda>(k, p). sort_key_of (tiebreaker_values (match_tracker c) (map snd (players c))) p)
           (sorted_standings c)"
proof -
  have "map (spec_key c) (fst (get_standings c)) = map (\<lambda>(k, p). spec_key c p) (sorted_standings c)"
    by (rule get_standings_map) (rule spec_key_rank)
  also have "\<dots> = map (\<lambda>(k, p). sort_key_of (tiebreaker_values (match_tracker c) (map snd (players c))) p)
           (sorted_standings c)"
    using sort_key_of_spec_key [OF assms]
    by (auto simp: sorted_standings_def)
  finally show ?thesis .
qed

lemma get_standings_sorted:
  assumes "wf_players (players c)"
  shows "sorted (map (spec_key c) (fst (get_standings c)))"
  unfolding get_standings_keys [OF assms] sorted_standings_def
  by (rule sorted_sort_key)

lemma get_standings_ids:
  "mset (map player_id (fst (get_standings c))) = mset (map player_id (map snd (players c)))"
proof -
  have "map player_id (fst (get_standings c)) = map (\<lambda>(k, p). player_id p) (sorted_standings c)"
    by (rule get_standings_map) simp
  also have "mset \<dots> = mset (map (\<lambda>(k, p). player_id p) (players c))"
    by (simp add: sorted_standings_def)
  finally show ?thesis by (simp add: split_def comp_def)
qed

lemma get_standings_distinct_keys:
  assumes "wf_players (players c)"
  shows "distinct (map (spec_key c) (fst (get_standings c)))"
proof -
  have "distinct (map player_id (fst (get_standings c)))"
    using get_standings_ids [of c] wf_players_ids(2) [OF assms]
    by (metis mset_eq_imp_distinct_iff)
  moreover have "map player_id (fst (get_standings c)) = map (\<lambda>k. snd (snd k)) (map (spec_key c) (fst (get_standings c)))"
    by (simp add: spec_key_def)
  ultimately show ?thesis by (metis distinct_map)
qed

lemma get_standings_ranks:
  "map rank (fst (get_standings c)) = map int [1..<Suc (length (players c))]"
proof (rule nth_equalityI)
  show "length (map rank (fst (get_standings c))) = length (map int [1..<Suc (length (players c))])"
    by (simp add: get_standings_length del: upt_Suc)
next
  fix i assume "i < length (map rank (fst (get_standings c)))"
  then have i: "i < length (players c)" by (simp add: get_standings_length)
  then have "[1..<Suc (length (players c))] ! i = 1 + i"
    by (intro nth_upt) simp
  with i show "map rank (fst (get_standings c)) ! i = map int [1..<Suc (length (players c))] ! i"
    by (simp add: get_standings_nth get_standings_length del: upt_Suc)
qed

lemma get_standings_perm:
  "mset (map (\<lambda>p. p\<lparr>rank := 0\<rparr>) (fst (get_standings c)))
     = mset (map (\<lambda>(k, p). p\<lparr>rank := 0\<rparr>) (players c))"
proof -
  have "map (\<lambda>p. p\<lparr>rank := 0\<rparr>) (fst (get_standings c))
          = map (\<lambda>(k, p). p\<lparr>rank := 0\<rparr>) (sorted_standings c)"
    by (rule get_standings_map) simp
  then show ?thesis by (simp add: sorted_standings_def)
qed


lemma at_most_one_with_id:
  "distinct (map f xs) \<Longrightarrow> length (filter (\<lambda>q. f q = v) xs) \<le> 1"
proof (induction xs)
  case Nil
  then show ?case by simp
next
  case (Cons x xs)
  show ?case
  proof (cases "f x = v")
    case True
    with Cons.prems have "filter (\<lambda>q. f q = v) xs = []"
      by (auto simp: filter_empty_conv image_iff)
    with True show ?thesis by simp
  next
    case False
    with Cons show ?thesis by simp
  qed
qed

lemma others_on_total:
  assumes "distinct (map player_id ps)"
  shows "length (filter (\<lambda>q. points q = n) ps)
           \<le> Suc (length (filter (\<lambda>q. player_id q \<noteq> player_id p \<and> points q = n) ps))"
proof -
  let ?same = "filter (\<lambda>q. points q = n) ps"
  have "length (filter (\<lambda>q. player_id q = player_id p) ?same)
          + length (filter (\<lambda>q. \<not> player_id q = player_id p) ?same) = length ?same"
    by (rule sum_length_filter_compl)
  moreover have "length (filter (\<lambda>q. player_id q = player_id p) ?same) \<le> 1"
    using assms by (intro at_most_one_with_id) (simp add: distinct_map_filter)
  moreover have "filter (\<lambda>q. \<not> player_id q = player_id p) ?same
                   = filter (\<lambda>q. player_id q \<noteq> player_id p \<and> points q = n) ps"
    by (simp add: conj_commute)
  ultimately show ?thesis by simp
qed

lemma three_or_more_no_tiebreak:
  assumes "distinct (map player_id ps)"
    and "3 \<le> length (filter (\<lambda>q. points q = points p) ps)"
  shows "spec_tiebreak_value t ps p = 0"
proof -
  have "2 \<le> length (filter (\<lambda>q. player_id q \<noteq> player_id p \<and> points q = points p) ps)"
    using others_on_total [OF assms(1), of "points p" p] assms(2) by simp
  then show ?thesis
    unfolding spec_tiebreak_value_def
    by (cases "filter (\<lambda>q. player_id q \<noteq> player_id p \<and> points q = points p) ps" rule: list.exhaust;
        auto split: list.splits)
qed

lemma spec_tiebreak_value_rank:
  "spec_tiebreak_value t ps (p\<lparr>rank := r\<rparr>) = spec_tiebreak_value t ps p"
  by (simp add: spec_tiebreak_value_def split: list.splits)

lemma get_standings_strict:
  assumes "wf_players (players c)"
  shows "sorted_wrt (<) (map (spec_key c) (fst (get_standings c)))"
  using get_standings_sorted [OF assms] get_standings_distinct_keys [OF assms]
  by (simp add: strict_sorted_iff)

lemma get_standings_three_or_more:
  assumes wf: "wf_players (players c)"
    and ij: "i < j" "j < length (fst (get_standings c))"
    and pts: "points (fst (get_standings c) ! i) = points (fst (get_standings c) ! j)"
    and many: "3 \<le> on_total c (points (fst (get_standings c) ! i))"
  shows "player_id (fst (get_standings c) ! i) < player_id (fst (get_standings c) ! j)"
proof -
  let ?r = "fst (get_standings c)"
  let ?vals = "map snd (players c)"
  have d: "distinct (map player_id ?vals)" by (rule wf_players_ids(2) [OF wf])
  have ti: "spec_tiebreak_value (match_tracker c) ?vals (?r ! i) = 0"
    using many by (intro three_or_more_no_tiebreak [OF d]) (simp add: on_total_def)
  have tj: "spec_tiebreak_value (match_tracker c) ?vals (?r ! j) = 0"
    using many pts by (intro three_or_more_no_tiebreak [OF d]) (simp add: on_total_def)
  have "map (spec_key c) ?r ! i < map (spec_key c) ?r ! j"
    using get_standings_strict [OF wf] ij by (intro sorted_wrt_nth_less) simp_all
  then have "spec_key c (?r ! i) < spec_key c (?r ! j)"
    using ij by simp
  then show ?thesis
    using ti tj pts by (simp add: spec_key_def)
qed

lemma demo_calculator_value:
  "demo_calculator =
   \<lparr>players =
     [(''P1'', \<lparr>player_id = ''P1'', display_name = ''Alice'', wins = 2, losses = 0,
         ties = 0, points = 6, matches_played = 2, rank = 0\<rparr>),
      (''P2'', \<lparr>player_id = ''P2'', display_name = ''Bob'', wins = 0, losses = 1,
         ties = 0, points = 0, matches_played = 1, rank = 0\<rparr>),
      (''P3'', \<lparr>player_id = ''P3'', display_name = ''Carol'', wins = 0, losses = 1,
         ties = 0, points = 0, matches_played = 1, rank = 0\<rparr>)],
    match_tracker =
      \<lparr>matches =
         [\<lparr>mr_match_id = ''M1'', mr_player_a_id = ''P1'', mr_player_b_id = ''P2'',
            mr_winner_id = Some ''P1'', mr_result_type = ''WIN'', mr_timestamp = 1\<rparr>,
          \<lparr>mr_match_id = ''M2'', mr_player_a_id = ''P1'', mr_player_b_id = ''P3'',
            mr_winner_id = Some ''P1'', mr_result_type = ''WIN'', mr_timestamp = 2\<rparr>],
       head_to_head =
         [((''P1'', ''P2''), ''W''), ((''P2'', ''P1''), ''L''),
          ((''P1'', ''P3''), ''W''), ((''P3'', ''P1''), ''L'')],
       player_stats =
         [(''P1'', \<lparr>st_wins = 2, st_losses = 0, st_ties = 0, st_matches_played = 2\<rparr>),
          (''P2'', \<lparr>st_wins = 0, st_losses = 1, st_ties = 0, st_matches_played = 1\<rparr>),
          (''P3'', \<lparr>st_wins = 0, st_losses = 1, st_ties = 0, st_matches_played = 1\<rparr>)]\<rparr>\<rparr>"
  by (simp add: demo_calculator_def record_match_result_def record_match_def add_player_def
      new_standing_def StandingsCalculator_init_def MatchTracker_init_def init_stats_def Let_def)

lemma demo_standings:
  "fst (get_standings demo_calculator) =
     [\<lparr>player_id = ''P1'', display_name = ''Alice'', wins = 2, losses = 0,
        ties = 0, points = 6, matches_played = 2, rank = 1\<rparr>,
      \<lparr>player_id = ''P2'', display_name = ''Bob'', wins = 0, losses = 1,
        ties = 0, points = 0, matches_played = 1, rank = 2\<rparr>,
      \<lparr>player_id = ''P3'', display_name = ''Carol'', wins = 0, losses = 1,
        ties = 0, points = 0, matches_played = 1, rank = 3\<rparr>]"
  unfolding demo_calculator_value
  by (simp add: get_standings_def tiebreaker_values_def get_tiebreaker_value_def
      get_head_to_head_def sort_key_of_def Let_def enumerate_eq_zip upt_rec)

lemma record_match_result_returns:
  assumes "map_of (players c) a \<noteq> None" and "map_of (players c) b \<noteq> None"
    and "w = None \<or> w = Some a \<or> w = Some b"
  shows "fst (record_match_result now mid a b w c) = Return ()"
proof -
  obtain r t' where rm: "record_match now mid a b w ''WIN'' (match_tracker c) = (r, t')"
    by (cases "record_match now mid a b w ''WIN'' (match_tracker c)")
  with record_match_good_winner [OF assms(3), of now mid "''WIN''" "match_tracker c"]
  have "r = Return ()" by simp
  with rm assms(1,2) show ?thesis by (simp add: record_match_result_def Let_def)
qed

lemma reachable_sc_record:
  "reachable_sc c \<Longrightarrow> fst (record_match_result now mid a b w c) = Return ()
     \<Longrightarrow> reachable_sc (snd (record_match_result now mid a b w c))"
  by (metis sc_record prod.collapse)

lemma reachable_sc_wf_players: "reachable_sc c \<Longrightarrow> wf_players (players c)"
  using reachable_sc_inv [of c]
  by (simp add: wf_players_def standing_ok_def
        entries_iff_lookup [where Q = "\<lambda>k p. player_id p = k"])

lemma demo_calculator_reachable: "reachable_sc demo_calculator"
proof -
  let ?c0 = "snd (add_player ''P3'' ''Carol'' (snd (add_player ''P2'' ''Bob''
               (snd (add_player ''P1'' ''Alice'' StandingsCalculator_init)))))"
  let ?c1 = "snd (record_match_result 1 ''M1'' ''P1'' ''P2'' (Some ''P1'') ?c0)"
  have r0: "reachable_sc ?c0" by (intro sc_add sc_new)
  have f0: "fst (record_match_result 1 ''M1'' ''P1'' ''P2'' (Some ''P1'') ?c0) = Return ()"
    by (simp add: record_match_result_def record_match_def add_player_def
        new_standing_def StandingsCalculator_init_def MatchTracker_init_def init_stats_def Let_def)
  have f1: "fst (record_match_result 2 ''M2'' ''P1'' ''P3'' (Some ''P1'') ?c1) = Return ()"
    by (simp add: record_match_result_def record_match_def add_player_def
        new_standing_def StandingsCalculator_init_def MatchTracker_init_def init_stats_def Let_def)
  show ?thesis
    unfolding demo_calculator_def
    by (rule reachable_sc_record [OF reachable_sc_record [OF r0 f0] f1])
qed

text \<open>
  Claim C10. \<open>record_match_result\<close> with a \<open>player_a_id\<close> or \<open>player_b_id\<close> that was
  never added raises \<open>KeyError\<close>; with both players known and a winner that is neither
  of them nor null it raises \<open>ValueError\<close>. Whenever the call raises, the calculator
  it leaves is the calculator it found: the standings, the head-to-head records, the
  match list and the tracker's statistics are all as before.
\<close>

theorem record_match_result_atomic_on_error:
  "(map_of (players c) a = None \<or> map_of (players c) b = None \<longrightarrow>
      (\<exists>msg. record_match_result now mid a b w c = (Raise (KeyError msg), c)))
   \<and> (map_of (players c) a \<noteq> None \<and> map_of (players c) b \<noteq> None
        \<and> w \<noteq> None \<and> w \<noteq> Some a \<and> w \<noteq> Some b \<longrightarrow>
      (\<exists>msg. record_match_result now mid a b w c = (Raise (ValueError msg), c)))
   \<and> (\<forall>e c'. record_match_result now mid a b w c = (Raise e, c') \<longrightarrow> c' = c)"
proof (intro conjI impI allI)
  assume "map_of (players c) a = None \<or> map_of (players c) b = None"
  then show "\<exists>msg. record_match_result now mid a b w c = (Raise (KeyError msg), c)"
    by (auto simp: record_match_result_def split: if_splits)
next
  assume h: "map_of (players c) a \<noteq> None \<and> map_of (players c) b \<noteq> None
        \<and> w \<noteq> None \<and> w \<noteq> Some a \<and> w \<noteq> Some b"
  then have "record_match now mid a b w ''WIN'' (match_tracker c) =
       (Raise (ValueError (''Winner '' @ the w @ '' not in match players'')), match_tracker c)"
    by (simp add: record_match_bad_winner)
  with h show "\<exists>msg. record_match_result now mid a b w c = (Raise (ValueError msg), c)"
    by (simp add: record_match_result_def)
next
  fix e c'
  assume r: "record_match_result now mid a b w c = (Raise e, c')"
  show "c' = c"
  proof (cases "map_of (players c) a = None \<or> map_of (players c) b = None")
    case True
    with r show ?thesis by (auto simp: record_match_result_def split: if_splits)
  next
    case False
    obtain r' t' where rm: "record_match now mid a b w ''WIN'' (match_tracker c) = (r', t')"
      by (cases "record_match now mid a b w ''WIN'' (match_tracker c)")
    show ?thesis
    proof (cases r')
      case (Raise e')
      with rm have "t' = match_tracker c" by (simp add: record_match_raise_unchanged)
      with r rm Raise False show ?thesis by (auto simp: record_match_result_def)
    next
      case (Return u)
      with r rm False show ?thesis by (auto simp: record_match_result_def Let_def)
    qed
  qed
qed

theorem record_match_result_atomic_on_error_witness:
  "map_of (players demo_calculator) ''P9'' = None
   \<and> record_match_result 3 ''M3'' ''P9'' ''P2'' None demo_calculator
       = (Raise (KeyError ''Player P9 not in standings''), demo_calculator)
   \<and> map_of (players demo_calculator) ''P1'' \<noteq> None
   \<and> map_of (players demo_calculator) ''P2'' \<noteq> None
   \<and> record_match_result 3 ''M3'' ''P1'' ''P2'' (Some ''P3'') demo_calculator
       = (Raise (ValueError ''Winner P3 not in match players''), demo_calculator)"
proof -
  have a: "map_of (players demo_calculator) ''P9'' = None"
    and b: "map_of (players demo_calculator) ''P1'' \<noteq> None"
    and c: "map_of (players demo_calculator) ''P2'' \<noteq> None"
    by (simp_all add: demo_calculator_value)
  have f1: "fst (record_match_result 3 ''M3'' ''P9'' ''P2'' None demo_calculator)
              = Raise (KeyError ''Player P9 not in standings'')"
    using a by (simp add: record_match_result_def)
  have f2: "fst (record_match_result 3 ''M3'' ''P1'' ''P2'' (Some ''P3'') demo_calculator)
              = Raise (ValueError ''Winner P3 not in match players'')"
    using b c by (simp add: record_match_result_def record_match_def)
  from record_match_result_atomic_on_error [of demo_calculator "''P9''" "''P2''" 3 "''M3''" None] f1
  have s1: "snd (record_match_result 3 ''M3'' ''P9'' ''P2'' None demo_calculator) = demo_calculator"
    by (metis prod.collapse)
  from record_match_result_atomic_on_error
         [of demo_calculator "''P1''" "''P2''" 3 "''M3''" "Some ''P3''"] f2
  have s2: "snd (record_match_result 3 ''M3'' ''P1'' ''P2'' (Some ''P3'') demo_calculator)
              = demo_calculator"
    by (metis prod.collapse)
  from a b c f1 f2 s1 s2 show ?thesis by (simp add: prod_eq_iff)
qed

text \<open>
  Claim C7. After every sequence of \<open>add_player\<close> and returning
  \<open>record_match_result\<close> calls every standing has \<open>points = 3 * wins + 1 * ties\<close>, and
  each returning \<open>record_match_result\<close> increments \<open>matches_played\<close> by exactly 1 for
  both named players, \<open>a\<close> and \<open>b\<close> being the two different ids the call names.
\<close>

theorem standings_points_and_matches_played:
  assumes "reachable_sc c"
  shows "list_all (\<lambda>(k, p). points p = 3 * wins p + 1 * ties p) (players c)
         \<and> (\<forall>now mid a b w c'.
               record_match_result now mid a b w c = (Return (), c') \<and> a \<noteq> b \<longrightarrow>
               (\<exists>n m. played c a = Some n \<and> played c' a = Some (n + 1)
                    \<and> played c b = Some m \<and> played c' b = Some (m + 1)))"
proof -
  from reachable_sc_inv [OF assms]
  have "list_all (\<lambda>(k, p). points p = 3 * wins p + 1 * ties p) (players c)"
    by (simp add: standing_ok_def
          entries_iff_lookup [where Q = "\<lambda>k p. points p = 3 * wins p + ties p"])
  then show ?thesis using record_match_result_played by blast
qed

theorem standings_points_and_matches_played_witness:
  "reachable_sc demo_calculator
   \<and> list_all (\<lambda>(k, p). points p = 3 * wins p + 1 * ties p) (players demo_calculator)
   \<and> played demo_calculator ''P2'' = Some 1
   \<and> played demo_calculator ''P3'' = Some 1
   \<and> fst (record_match_result 3 ''M3'' ''P2'' ''P3'' None demo_calculator) = Return ()
   \<and> played (snd (record_match_result 3 ''M3'' ''P2'' ''P3'' None demo_calculator)) ''P2''
       = Some 2
   \<and> played (snd (record_match_result 3 ''M3'' ''P2'' ''P3'' None demo_calculator)) ''P3''
       = Some 2"
proof -
  let ?r = "record_match_result 3 ''M3'' ''P2'' ''P3'' None demo_calculator"
  have p2: "played demo_calculator ''P2'' = Some 1" and p3: "played demo_calculator ''P3'' = Some 1"
    by (simp_all add: demo_calculator_value played_def)
  have f: "fst ?r = Return ()"
    by (intro record_match_result_returns) (simp_all add: demo_calculator_value)
  then have e: "?r = (Return (), snd ?r)" by (simp add: prod_eq_iff)
  have ne: "''P2'' \<noteq> ''P3''" by simp
  from standings_points_and_matches_played [OF demo_calculator_reachable] e ne p2 p3
  have "list_all (\<lambda>(k, p). points p = 3 * wins p + 1 * ties p) (players demo_calculator)"
    and "played (snd ?r) ''P2'' = Some 2" and "played (snd ?r) ''P3'' = Some 2"
    by fastforce+
  with demo_calculator_reachable p2 p3 f show ?thesis by simp
qed

text \<open>
  Claim C6. For a calculator whose players were entered through \<open>add_player\<close>,
  \<open>get_standings\<close> returns every player once, with every field but the rank as stored,
  in strictly ascending order of the key \<open>(- points, tiebreak_value, player_id)\<close>, and
  the rank of the entry at index \<open>i\<close> is \<open>i + 1\<close>. The tie-break value the code
  computes is the one the specification words: 0 unless exactly one other player shares
  the point total, and then 1 for a recorded head-to-head loss against that player and
  0 for a win, a tie or no record. Among three or more players on one point total the
  order is that of \<open>player_id\<close>.
\<close>

theorem get_standings_sorted_and_ranked:
  assumes "wf_players (players c)"
  shows "sorted_wrt (<) (map (spec_key c) (fst (get_standings c)))
       \<and> map rank (fst (get_standings c)) = map int [1..<Suc (length (players c))]
       \<and> mset (map (\<lambda>p. p\<lparr>rank := 0\<rparr>) (fst (get_standings c)))
           = mset (map (\<lambda>(k, p). p\<lparr>rank := 0\<rparr>) (players c))
       \<and> (\<forall>p. get_tiebreaker_value (match_tracker c) p (map snd (players c))
                = spec_tiebreak_value (match_tracker c) (map snd (players c)) p)
       \<and> (\<forall>i j. i < j \<and> j < length (fst (get_standings c))
                  \<and> points (fst (get_standings c) ! i) = points (fst (get_standings c) ! j)
                  \<and> 3 \<le> on_total c (points (fst (get_standings c) ! i))
                \<longrightarrow> player_id (fst (get_standings c) ! i) < player_id (fst (get_standings c) ! j))"
proof (intro conjI allI impI)
  show "sorted_wrt (<) (map (spec_key c) (fst (get_standings c)))"
    by (rule get_standings_strict [OF assms])
  show "map rank (fst (get_standings c)) = map int [1..<Suc (length (players c))]"
    by (rule get_standings_ranks)
  show "mset (map (\<lambda>p. p\<lparr>rank := 0\<rparr>) (fst (get_standings c)))
           = mset (map (\<lambda>(k, p). p\<lparr>rank := 0\<rparr>) (players c))"
    by (rule get_standings_perm)
next
  fix p
  show "get_tiebreaker_value (match_tracker c) p (map snd (players c))
          = spec_tiebreak_value (match_tracker c) (map snd (players c)) p"
    by (rule tiebreak_refines_spec)
next
  fix i j
  assume "i < j \<and> j < length (fst (get_standings c))
            \<and> points (fst (get_standings c) ! i) = points (fst (get_standings c) ! j)
            \<and> 3 \<le> on_total c (points (fst (get_standings c) ! i))"
  then show "player_id (fst (get_standings c) ! i) < player_id (fst (get_standings c) ! j)"
    using get_standings_three_or_more [OF assms, of i j] by blast
qed

theorem get_standings_sorted_and_ranked_witness:
  "wf_players (players demo_calculator)
   \<and> fst (get_standings demo_calculator) =
       [\<lparr>player_id = ''P1'', display_name = ''Alice'', wins = 2, losses = 0,
          ties = 0, points = 6, matches_played = 2, rank = 1\<rparr>,
        \<lparr>player_id = ''P2'', display_name = ''Bob'', wins = 0, losses = 1,
          ties = 0, points = 0, matches_played = 1, rank = 2\<rparr>,
        \<lparr>player_id = ''P3'', display_name = ''Carol'', wins = 0, losses = 1,
          ties = 0, points = 0, matches_played = 1, rank = 3\<rparr>]
   \<and> sorted_wrt (<) (map (spec_key demo_calculator) (fst (get_standings demo_calculator)))
   \<and> map rank (fst (get_standings demo_calculator)) = [1, 2, 3]"
proof -
  have wf: "wf_players (players demo_calculator)"
    by (simp add: demo_calculator_value wf_players_def)
  have len: "length (players demo_calculator) = 3"
    by (simp add: demo_calculator_value)
  from get_standings_sorted_and_ranked [OF wf]
  have "sorted_wrt (<) (map (spec_key demo_calculator) (fst (get_standings demo_calculator)))"
    and "map rank (fst (get_standings demo_calculator)) = map int [1..<Suc 3]"
    unfolding len by blast+
  then show ?thesis using wf demo_standings by (simp add: upt_rec)
qed

subsection \<open>Broadcast\<close>



lemma process_results_counts:
  "successful (foldl process_result r xs) + failed (foldl process_result r xs)
     = successful r + failed r + int (length xs)"
  by (induction xs arbitrary: r) (auto simp: process_result_def Let_def split: gathered.splits)

lemma process_results_total:
  "total_count (foldl process_result r xs) = total_count r"
  by (induction xs arbitrary: r) (auto simp: process_result_def Let_def split: gathered.splits)

lemma process_results_keeps:
  "set (failed_agents r) \<subseteq> set (failed_agents (foldl process_result r xs))
   \<and> fst ` set (errors r) \<subseteq> fst ` set (errors (foldl process_result r xs))"
proof (induction xs arbitrary: r)
  case Nil
  then show ?case by simp
next
  case (Cons x xs)
  have "set (failed_agents r) \<subseteq> set (failed_agents (process_result r x))"
    and "fst ` set (errors r) \<subseteq> fst ` set (errors (process_result r x))"
    by (auto simp: process_result_def Let_def dom_update split: gathered.splits)
  with Cons.IH [of "process_result r x"] show ?case by (metis foldl_Cons subset_trans)
qed

lemma process_result_records:
  assumes "snd x \<noteq> GTrue"
  shows "get_agent_id (fst x) \<in> set (failed_agents (process_result r x))"
    and "get_agent_id (fst x) \<in> fst ` set (errors (process_result r x))"
  using assms by (auto simp: process_result_def Let_def dom_update split: gathered.splits)

lemma process_results_records:
  assumes "(a, res) \<in> set xs" and "res \<noteq> GTrue"
  shows "get_agent_id a \<in> set (failed_agents (foldl process_result r xs))
       \<and> get_agent_id a \<in> fst ` set (errors (foldl process_result r xs))"
  using assms(1)
proof (induction xs arbitrary: r)
  case Nil
  then show ?case by simp
next
  case (Cons x xs)
  show ?case
  proof (cases "x = (a, res)")
    case True
    with assms(2) process_result_records [of x r]
    have "get_agent_id a \<in> set (failed_agents (process_result r x))"
      and "get_agent_id a \<in> fst ` set (errors (process_result r x))" by auto
    with process_results_keeps [of "process_result r x" xs] show ?thesis by auto
  next
    case False
    with Cons.prems have "(a, res) \<in> set xs" by simp
    from Cons.IH [OF this, of "process_result r x"] show ?thesis by simp
  qed
qed

lemma process_results_failed_length:
  "failed (foldl process_result r xs) - int (length (failed_agents (foldl process_result r xs)))
     = failed r - int (length (failed_agents r))"
  by (induction xs arbitrary: r) (auto simp: process_result_def Let_def split: gathered.splits)


lemma demo_broadcast:
  "broadcast_to_agents 2 demo_agents demo_net =
     \<lparr>total_count = 3, successful = 2, failed = 1, failed_agents = [''X''],
      errors = [(''X'', ''timed out'')]\<rparr>"
  by (simp add: broadcast_to_agents_def process_results_def process_result_def demo_agents_def
      demo_net_def send_to_agent_def truthy_str_def get_agent_id_def DeliveryReport_init_def
      Let_def enumerate_eq_zip upt_rec)

text \<open>
  Claim C9. For every recipient list, the empty one included, every retry bound and
  every behaviour of the network, the report of a broadcast has
  \<open>successful + failed = total\<close> with \<open>total\<close> the number of recipients, and for each
  recipient whose delivery did not return true (it raised for a missing endpoint, a
  timeout, an HTTP error or any other exception after the last attempt, or returned
  false) the id is in \<open>failed_agents\<close> and has an entry in \<open>errors\<close>. The failure count
  is the length of \<open>failed_agents\<close>.
\<close>

theorem broadcast_report_accounts_for_every_recipient:
  "successful (broadcast_to_agents max_retries agents net)
     + failed (broadcast_to_agents max_retries agents net)
     = total_count (broadcast_to_agents max_retries agents net)
   \<and> total_count (broadcast_to_agents max_retries agents net) = int (length agents)
   \<and> failed (broadcast_to_agents max_retries agents net)
       = int (length (failed_agents (broadcast_to_agents max_retries agents net)))
   \<and> (\<forall>i. i < length agents \<and> send_to_agent max_retries (agents ! i) (net i) \<noteq> GTrue \<longrightarrow>
         get_agent_id (agents ! i) \<in> set (failed_agents (broadcast_to_agents max_retries agents net))
         \<and> map_of (errors (broadcast_to_agents max_retries agents net)) (get_agent_id (agents ! i))
             \<noteq> None)"
proof -
  let ?results = "map (\<lambda>(i, agent). send_to_agent max_retries agent (net i)) (enumerate 0 agents)"
  let ?r0 = "DeliveryReport_init\<lparr>total_count := int (length agents)\<rparr>"
  have b: "broadcast_to_agents max_retries agents net = foldl process_result ?r0 (zip agents ?results)"
    by (cases agents) (simp_all add: broadcast_to_agents_def process_results_def Let_def)
  have len: "length (zip agents ?results) = length agents" by simp
  have counts: "successful (broadcast_to_agents max_retries agents net)
     + failed (broadcast_to_agents max_retries agents net) = int (length agents)"
    unfolding b process_results_counts len by (simp add: DeliveryReport_init_def)
  have tot: "total_count (broadcast_to_agents max_retries agents net) = int (length agents)"
    unfolding b process_results_total by simp
  have fl: "failed (broadcast_to_agents max_retries agents net)
       = int (length (failed_agents (broadcast_to_agents max_retries agents net)))"
    using process_results_failed_length [of ?r0 "zip agents ?results"]
    unfolding b by (simp add: DeliveryReport_init_def)
  have rec: "get_agent_id (agents ! i) \<in> set (failed_agents (broadcast_to_agents max_retries agents net))
         \<and> map_of (errors (broadcast_to_agents max_retries agents net)) (get_agent_id (agents ! i))
             \<noteq> None"
    if i: "i < length agents" and f: "send_to_agent max_retries (agents ! i) (net i) \<noteq> GTrue" for i
  proof -
    have "?results ! i = send_to_agent max_retries (agents ! i) (net i)"
      using i by (simp add: nth_enumerate_eq)
    then have "(agents ! i, send_to_agent max_retries (agents ! i) (net i)) \<in> set (zip agents ?results)"
      using i by (auto simp: set_zip)
    from process_results_records [OF this f, of ?r0]
    show ?thesis unfolding b by (simp add: map_of_eq_None_iff)
  qed
  from counts tot fl rec show ?thesis by simp
qed


theorem broadcast_report_accounts_for_every_recipient_witness:
  "1 < length demo_agents
   \<and> send_to_agent 2 (demo_agents ! 1) (demo_net 1) = GException ''timed out''
   \<and> get_agent_id (demo_agents ! 1) = ''X''
   \<and> ''X'' \<in> set (failed_agents (broadcast_to_agents 2 demo_agents demo_net))
   \<and> map_of (errors (broadcast_to_agents 2 demo_agents demo_net)) ''X'' \<noteq> None
   \<and> successful (broadcast_to_agents 2 demo_agents demo_net)
       + failed (broadcast_to_agents 2 demo_agents demo_net) = 3
   \<and> broadcast_to_agents 2 demo_agents demo_net =
       \<lparr>total_count = 3, successful = 2, failed = 1, failed_agents = [''X''],
        errors = [(''X'', ''timed out'')]\<rparr>
   \<and> broadcast_to_agents 2 [] demo_net = DeliveryReport_init"
proof -
  have l: "1 < length demo_agents" and len: "int (length demo_agents) = 3"
    by (simp_all add: demo_agents_def)
  have s: "send_to_agent 2 (demo_agents ! 1) (demo_net 1) = GException ''timed out''"
    by (simp add: send_to_agent_def demo_agents_def demo_net_def truthy_str_def upt_rec)
  have g: "get_agent_id (demo_agents ! 1) = ''X''"
    by (simp add: demo_agents_def get_agent_id_def truthy_str_def)
  have e: "broadcast_to_agents 2 [] demo_net = DeliveryReport_init"
    by (simp add: broadcast_to_agents_def DeliveryReport_init_def)
  from broadcast_report_accounts_for_every_recipient [of 2 demo_agents demo_net] l s g len
  have "''X'' \<in> set (failed_agents (broadcast_to_agents 2 demo_agents demo_net))"
    and "map_of (errors (broadcast_to_agents 2 demo_agents demo_net)) ''X'' \<noteq> None"
    and "successful (broadcast_to_agents 2 demo_agents demo_net)
           + failed (broadcast_to_agents 2 demo_agents demo_net) = 3"
    by (metis gathered.distinct(1))+
  with l s g e demo_broadcast show ?thesis by simp
qed

subsection \<open>Match orchestration\<close>

text \<open>
  Claim C8, evaluated where it fails. For the match of P01 against P02 the request
  sent to P01 carries \<open>context.opponent_id = P01\<close>, the player's own id, and so does the
  request sent to P02: the write of the opponent for player B goes through the context
  dict that both requests share. The invitations, whose \<open>opponent_id\<close> is a key of the
  copied dict itself, name P02 to P01 and P01 to P02.
\<close>

theorem choice_request_to_player_A_names_itself:
  "map (\<lambda>c. (call_endpoint c, field ''player_id'' (call_params c),
              field ''opponent_id'' (field ''context'' (call_params c))))
     (choice_requests demo_config ''2025-01-01T10:00:00Z'' ''20250101T100030Z'' demo_match)
   = [(''http://localhost:8101/mcp'', Some (JStr ''P01''), Some (JStr ''P01'')),
      (''http://localhost:8102/mcp'', Some (JStr ''P02''), Some (JStr ''P01''))]
   \<and> map (\<lambda>c. (call_endpoint c, field ''opponent_id'' (call_params c)))
       (invitation_requests demo_config ''2025-01-01T10:00:00Z'' demo_match)
   = [(''http://localhost:8101/mcp'', Some (JStr ''P02'')),
      (''http://localhost:8102/mcp'', Some (JStr ''P01''))]"
  by code_simp

text \<open>
  Claim C2, evaluated where it fails. When player B rejects the invitation, when the
  invitation to player A is never answered, when player B answers a choice outside the
  two symbols, and when the choice call to player A fails, the match ends in \<open>ABORTED\<close>
  and \<open>orchestrate_game\<close> returns without any report handed to the league manager. The
  \<open>ABORTED\<close> report is sent only from the exception handler, which these four paths do
  not enter; a reply that is not an object does enter it, and is reported.
\<close>

theorem aborted_match_is_not_reported:
  "final_state (orchestrate_game env_rejected demo_match) = ABORTED
   \<and> reports_of (orchestrate_game env_rejected demo_match) = []
   \<and> final_state (orchestrate_game env_no_answer demo_match) = ABORTED
   \<and> reports_of (orchestrate_game env_no_answer demo_match) = []
   \<and> final_state (orchestrate_game env_bad_choice demo_match) = ABORTED
   \<and> reports_of (orchestrate_game env_bad_choice demo_match) = []
   \<and> final_state (orchestrate_game env_choice_failed demo_match) = ABORTED
   \<and> reports_of (orchestrate_game env_choice_failed demo_match) = []
   \<and> final_state (orchestrate_game env_malformed demo_match) = ABORTED
   \<and> reports_of (orchestrate_game env_malformed demo_match)
       = [aborted_report demo_match
            (quoted ''str'' @ '' object has no attribute '' @ quoted ''get'')]"
  by code_simp

end
